theory Spec2Isabelle
  imports Complex_Main
begin

section \<open>Values, tables and the outside world\<close>

text \<open>
  The script compares the astrometry of a photometric survey with that of Gaia. Numbers
  are Python floats, that is IEEE 754 doubles. A finite double is modelled by the real
  number it stands for. The cell \<open>None\<close> is a value that is not a finite number: in
  a catalogue that is read, a NaN or a masked entry, with which every comparison is
  false (the catalogues are taken to hold no infinities); in a computed column, also
  the infinity that an operation returns when its result is beyond the largest double.
\<close>

type_synonym cell = "real option"

subsection \<open>Double precision arithmetic\<close>

text \<open>Rounding to the nearest integer, a tie going to the even one.\<close>

definition round_even :: "real \<Rightarrow> int" where
  "round_even y =
     (let f = \<lfloor>y\<rfloor>; d = y - of_int f
      in if d < 1 / 2 then f else if 1 / 2 < d then f + 1 else if even f then f else f + 1)"

text \<open>
  The exponent of the last place of the doubles around \<open>x\<close>: 52 binary places
  below the leading one, and never below the subnormal spacing \<open>2 powi - 1074\<close>.
\<close>

definition double_exp :: "real \<Rightarrow> int" where
  "double_exp x = max (\<lfloor>log 2 \<bar>x\<bar>\<rfloor> - 52) (- 1074)"

definition double_round :: "real \<Rightarrow> real" where
  "double_round x =
     (if x = 0 then 0
      else of_int (round_even (x / 2 powi double_exp x)) * 2 powi double_exp x)"

text \<open>
  The double that an operation returns when its exact result is \<open>x\<close>: the nearest
  double, or an infinity (here \<open>None\<close>) when that is beyond the largest one.
\<close>

definition double_of :: "real \<Rightarrow> cell" where
  "double_of x = (let r = double_round x in if \<bar>r\<bar> < 2 ^ 1024 then Some r else None)"

definition cell_sub :: "cell \<Rightarrow> cell \<Rightarrow> cell" where
  "cell_sub a b = (case (a, b) of (Some x, Some y) \<Rightarrow> double_of (x - y) | _ \<Rightarrow> None)"

definition cell_add :: "cell \<Rightarrow> cell \<Rightarrow> cell" where
  "cell_add a b = (case (a, b) of (Some x, Some y) \<Rightarrow> double_of (x + y) | _ \<Rightarrow> None)"

definition cell_mul :: "cell \<Rightarrow> cell \<Rightarrow> cell" where
  "cell_mul a b = (case (a, b) of (Some x, Some y) \<Rightarrow> double_of (x * y) | _ \<Rightarrow> None)"

definition cell_abs :: "cell \<Rightarrow> cell" where
  "cell_abs a = map_option abs a"

definition cell_lt :: "cell \<Rightarrow> cell \<Rightarrow> bool" where
  "cell_lt a b = (case (a, b) of (Some x, Some y) \<Rightarrow> x < y | _ \<Rightarrow> False)"

definition cell_gt :: "cell \<Rightarrow> cell \<Rightarrow> bool" where
  "cell_gt a b = cell_lt b a"

definition cell_eq :: "cell \<Rightarrow> cell \<Rightarrow> bool" where
  "cell_eq a b = (case (a, b) of (Some x, Some y) \<Rightarrow> x = y | _ \<Rightarrow> False)"

text \<open>
  \<open>a * c < b\<close> for a column value \<open>a\<close> and finite doubles \<open>c\<close> and \<open>b\<close>.
  The product is a double; beyond the largest double it is the infinity with the sign
  of the exact product, and minus infinity is below \<open>b\<close>.
\<close>

definition cell_mul_lt :: "cell \<Rightarrow> real \<Rightarrow> real \<Rightarrow> bool" where
  "cell_mul_lt a c b =
     (case a of
        None \<Rightarrow> False
      | Some x \<Rightarrow> (case double_of (x * c) of Some y \<Rightarrow> y < b | None \<Rightarrow> x * c < 0))"

subsection \<open>Errors and tables\<close>

datatype error =
    TypeError string
  | NameError string
  | KeyError string
  | IndexError
  | ValueError
  | FileNotFoundError string
  | FileExistsError string
  | OSError string
  | AssertionError string
  | ArgumentTypeError string
  | SystemExit int
  | RemoteError string

text \<open>
  A table (astropy Table, FITS record array, pandas DataFrame) is a list of named
  columns. Reading a column that the table does not have raises \<open>KeyError\<close>.
\<close>

type_synonym column = "cell list"
type_synonym table = "(string \<times> column) list"

definition getcol :: "table \<Rightarrow> string \<Rightarrow> error + column" where
  "getcol t c = (case map_of t c of None \<Rightarrow> Inl (KeyError c) | Some xs \<Rightarrow> Inr xs)"

definition nrows :: "table \<Rightarrow> nat" where
  "nrows t = (case t of [] \<Rightarrow> 0 | (_, xs) # _ \<Rightarrow> length xs)"

definition wf_table :: "table \<Rightarrow> bool" where
  "wf_table t = list_all (\<lambda>(_, xs). length xs = nrows t) t"

text \<open>Indexing with a boolean array keeps the positions where the array is true.\<close>

definition mask_select :: "bool list \<Rightarrow> 'a list \<Rightarrow> 'a list" where
  "mask_select m xs = map snd (filter fst (zip m xs))"

text \<open>
  \<open>a & b\<close> on boolean arrays: numpy raises \<open>ValueError\<close> when the shapes differ.
\<close>

definition mask_and :: "bool list \<Rightarrow> bool list \<Rightarrow> error + bool list" where
  "mask_and a b =
     (if length a = length b then Inr (map (\<lambda>(x, y). x \<and> y) (zip a b)) else Inl ValueError)"

text \<open>
  \<open>t[mask]\<close> on a table: the rows where the mask is true; \<open>IndexError\<close> when the
  mask has another length than the table.
\<close>

definition select_rows :: "bool list \<Rightarrow> table \<Rightarrow> error + table" where
  "select_rows m t =
     (if list_all (\<lambda>(_, xs). length xs = length m) t
      then Inr (map (\<lambda>(n, xs). (n, mask_select m xs)) t)
      else Inl IndexError)"

text \<open>\<open>t[idx]\<close> with an array of row numbers; out of range raises \<open>IndexError\<close>.\<close>

definition take_rows :: "nat list \<Rightarrow> table \<Rightarrow> error + table" where
  "take_rows idx t =
     (if list_all (\<lambda>(_, xs). list_all (\<lambda>i. i < length xs) idx) t
      then Inr (map (\<lambda>(n, xs). (n, map (\<lambda>i. xs ! i) idx)) t)
      else Inl IndexError)"

text \<open>Sequencing of computations that may raise.\<close>

definition bind :: "error + 'a \<Rightarrow> ('a \<Rightarrow> error + 'b) \<Rightarrow> error + 'b" where
  "bind m f = (case m of Inl e \<Rightarrow> Inl e | Inr x \<Rightarrow> f x)"

subsection \<open>Paths\<close>

type_synonym path = string

definition startswith_sep :: "string \<Rightarrow> bool" where
  "startswith_sep b = (case b of [] \<Rightarrow> False | c # _ \<Rightarrow> c = CHR ''/'')"

definition endswith_sep :: "string \<Rightarrow> bool" where
  "endswith_sep a = (case rev a of [] \<Rightarrow> False | c # _ \<Rightarrow> c = CHR ''/'')"

text \<open>\<open>os.path.join\<close> of two components, as posixpath defines it.\<close>

definition os_path_join :: "path \<Rightarrow> string \<Rightarrow> path" where
  "os_path_join a b =
     (if startswith_sep b then b
      else if a = [] \<or> endswith_sep a then a @ b
      else a @ ''/'' @ b)"

subsection \<open>The world: files, directories and what the run did\<close>

record footprint =
  NAME :: "string list"
  RA :: "cell list"
  DEC :: "cell list"

datatype content =
    Csv table
  | Fits "table list"
  | FootprintFile footprint
  | TileList "string list"

datatype level = INFO | WARNING | ERROR

datatype event =
    Log level string
  | Print string
  | ReadFile path
  | WriteFile path
  | MkDir path
  | Query string
  | StartProcess "string list"
  | Sleep nat

record world =
  files :: "path \<rightharpoonup> content"
  dirs :: "path set"
  trace :: "event list"

text \<open>
  Paths are compared as strings, and a directory is in the model on its own, whether or
  not its parent is.
\<close>

definition emit :: "event \<Rightarrow> world \<Rightarrow> world" where
  "emit e w = w\<lparr>trace := trace w @ [e]\<rparr>"

definition isfile :: "world \<Rightarrow> path \<Rightarrow> bool" where
  "isfile w p = (files w p \<noteq> None)"

definition isdir :: "world \<Rightarrow> path \<Rightarrow> bool" where
  "isdir w p = (p \<in> dirs w)"

text \<open>
  A computation on the world returns a value or the exception raised, and the world as
  it is at that moment: what a failed run already did stays done.
\<close>

type_synonym 'a io = "world \<Rightarrow> (error + 'a) \<times> world"

definition io_bind :: "'a io \<Rightarrow> ('a \<Rightarrow> 'b io) \<Rightarrow> 'b io" where
  "io_bind m f w = (case m w of (Inl e, w') \<Rightarrow> (Inl e, w') | (Inr x, w') \<Rightarrow> f x w')"

definition io_return :: "'a \<Rightarrow> 'a io" where
  "io_return x w = (Inr x, w)"

definition io_raise :: "error \<Rightarrow> 'a io" where
  "io_raise e w = (Inl e, w)"

definition io_lift :: "error + 'a \<Rightarrow> 'a io" where
  "io_lift r w = (r, w)"

definition logmsg :: "level \<Rightarrow> string \<Rightarrow> unit io" where
  "logmsg l s w = (Inr (), emit (Log l s) w)"

text \<open>\<open>os.mkdir\<close>: the path must not exist yet.\<close>

definition os_mkdir :: "path \<Rightarrow> unit io" where
  "os_mkdir p w =
     (if isdir w p \<or> isfile w p then (Inl (FileExistsError p), w)
      else (Inr (), emit (MkDir p) (w\<lparr>dirs := insert p (dirs w)\<rparr>)))"

text \<open>\<open>os.makedirs(p, exist_ok=True)\<close>: an existing directory is accepted.\<close>

definition os_makedirs_exist_ok :: "path \<Rightarrow> unit io" where
  "os_makedirs_exist_ok p w =
     (if isdir w p then (Inr (), w)
      else if isfile w p then (Inl (FileExistsError p), w)
      else (Inr (), emit (MkDir p) (w\<lparr>dirs := insert p (dirs w)\<rparr>)))"

text \<open>
  The three readers. Each one opens the file, which the trace records, and fails on a
  missing file or on content of another kind.
\<close>

definition ascii_read_csv :: "path \<Rightarrow> table io" where
  "ascii_read_csv p w =
     (case files w p of
        None \<Rightarrow> (Inl (FileNotFoundError p), emit (ReadFile p) w)
      | Some (Csv t) \<Rightarrow> (Inr t, emit (ReadFile p) w)
      | Some _ \<Rightarrow> (Inl (OSError p), emit (ReadFile p) w))"

definition pd_read_csv :: "path \<Rightarrow> table io" where
  "pd_read_csv p w =
     (case files w p of
        None \<Rightarrow> (Inl (FileNotFoundError p), emit (ReadFile p) w)
      | Some (Csv t) \<Rightarrow> (Inr t, emit (ReadFile p) w)
      | Some _ \<Rightarrow> (Inl (OSError p), emit (ReadFile p) w))"

text \<open>\<open>fits.open(p)[hdu].data\<close>; a negative \<open>hdu\<close> counts from the end.\<close>

definition fits_open_data :: "path \<Rightarrow> int \<Rightarrow> table io" where
  "fits_open_data p hdu w =
     (case files w p of
        None \<Rightarrow> (Inl (FileNotFoundError p), emit (ReadFile p) w)
      | Some (Fits hs) \<Rightarrow>
          (let n = int (length hs); j = (if hdu < 0 then n + hdu else hdu)
           in if 0 \<le> j \<and> j < n then (Inr (hs ! nat j), emit (ReadFile p) w)
              else (Inl IndexError, emit (ReadFile p) w))
      | Some _ \<Rightarrow> (Inl (OSError p), emit (ReadFile p) w))"

text \<open>\<open>DataFrame.to_csv(p, index=False)\<close>.\<close>

definition to_csv :: "path \<Rightarrow> table \<Rightarrow> unit io" where
  "to_csv p t w = (Inr (), emit (WriteFile p) (w\<lparr>files := (files w)(p \<mapsto> Csv t)\<rparr>))"

section \<open>The object and the services it calls\<close>

text \<open>The attributes that \<open>SplusGaiaAst.__init__\<close> copies from the command line.\<close>

record config =
  tiles :: string
  workdir :: string
  datadir :: "string option"
  gaia_dr :: string
  cat_name_preffix :: string
  cat_name_suffix :: string
  cathdu :: int
  racolumn :: string
  decolumn :: string
  mag_column :: string
  flags_column :: "string option"
  clstar_column :: "string option"
  fwhm_column :: "string option"
  sn_column :: "string option"
  filetype :: string
  angle :: real
  sn_limit :: real
  verbose :: bool

text \<open>
  Three library calls are taken as they are: the query of the remote catalogue service
  (catalogue name, centre, radius in degrees; it answers with a list of tables or
  fails), astropy's nearest-neighbour match, which gives for every survey position
  the row number of the closest reference position and the angular separation to it in
  arcsec, and \<open>np.cos\<close> on an angle in degrees (\<open>np.cos(x * u.deg)\<close>), whose
  last bits are the library's.
\<close>

type_synonym coord = "cell \<times> cell"

record services =
  query_region :: "string \<Rightarrow> coord \<Rightarrow> real \<Rightarrow> error + table list"
  match_to_catalog_3d :: "coord list \<Rightarrow> coord list \<Rightarrow> error + nat list \<times> cell list"
  np_cos_deg :: "real \<Rightarrow> cell"

section \<open>get_gaia\<close>

definition or_default :: "'a option \<Rightarrow> 'a \<Rightarrow> 'a" where
  "or_default arg dflt = (case arg of None \<Rightarrow> dflt | Some x \<Rightarrow> x)"

definition vizier_cache_path :: "path \<Rightarrow> path" where
  "vizier_cache_path wd = os_path_join wd ''.astropy/cache/astroquery/Vizier/''"

text \<open>Line 184: where \<open>get_gaia\<close> saves the catalogue it fetched.\<close>

definition gaia_save_path :: "path \<Rightarrow> string \<Rightarrow> string \<Rightarrow> path" where
  "gaia_save_path wd dr tilename = os_path_join wd (''gaia_'' @ dr @ ''_'' @ tilename @ ''.csv'')"

text \<open>Line 186: the directory that \<open>get_gaia\<close> creates before saving.\<close>

definition gaia_dir :: "path \<Rightarrow> string \<Rightarrow> path" where
  "gaia_dir wd dr = os_path_join wd (''gaia_'' @ dr)"

text \<open>
  \<open>if not os.path.isdir(p): try: mk(p) except FileExistsError: log\<close>, for both
  directory creations of \<open>get_gaia\<close>.
\<close>

definition ensure_dir :: "(path \<Rightarrow> unit io) \<Rightarrow> path \<Rightarrow> unit io" where
  "ensure_dir mk p w =
     (if isdir w p then (Inr (), w)
      else (case mk p w of
              (Inl (FileExistsError _), w') \<Rightarrow>
                logmsg INFO (''File '' @ p @ '' already exists. Skipping'') w'
            | r \<Rightarrow> r))"

definition first_table :: "table list \<Rightarrow> error + table" where
  "first_table ts = (case ts of [] \<Rightarrow> Inl IndexError | t # _ \<Rightarrow> Inr t)"

text \<open>Lines 179-180: drop the rows whose two coordinates are both masked.\<close>

definition drop_masked_coords :: "table \<Rightarrow> error + table" where
  "drop_masked_coords g =
     bind (getcol g ''RAJ2000'') (\<lambda>ra.
     bind (getcol g ''DEJ2000'') (\<lambda>de.
     bind (mask_and (map (\<lambda>c. c = None) ra) (map (\<lambda>c. c = None) de)) (\<lambda>m.
     select_rows (map Not m) g)))"

definition vizier_query :: "services \<Rightarrow> string \<Rightarrow> coord \<Rightarrow> real \<Rightarrow> table list io" where
  "vizier_query srv cat centre radius w =
     (query_region srv cat centre radius, emit (Query cat) w)"

text \<open>Lines 159-180: resolve the defaults, prepare the query cache, query, clean.\<close>

definition get_gaia_fetch ::
  "services \<Rightarrow> config \<Rightarrow> coord \<Rightarrow> path \<Rightarrow> string \<Rightarrow> real \<Rightarrow> table io" where
  "get_gaia_fetch srv self tile_coords wd dr ang =
     io_bind (logmsg INFO ''Querying gaia/vizier'') (\<lambda>_.
     io_bind (ensure_dir os_makedirs_exist_ok (vizier_cache_path wd)) (\<lambda>_.
     io_bind (vizier_query srv (''I/'' @ dr) tile_coords ang) (\<lambda>ts.
     io_bind (io_lift (first_table ts)) (\<lambda>gaia_data.
     io_lift (drop_masked_coords gaia_data)))))"

text \<open>
  Line 181 calls \<open>logger.info\<close> on the bare name \<open>logger\<close>. The module binds no
  such name (the methods use \<open>self.logger\<close>, the functions a local or a parameter), so
  looking it up raises \<open>NameError\<close>.
\<close>

definition module_logger_info :: "unit io" where
  "module_logger_info = io_raise (NameError ''logger'')"

text \<open>Lines 183-198: create the release directory, save the catalogue, return it.\<close>

definition get_gaia_save :: "config \<Rightarrow> path \<Rightarrow> string \<Rightarrow> string \<Rightarrow> table \<Rightarrow> table io" where
  "get_gaia_save self wd dr tilename gaia_data =
     io_bind (ensure_dir os_mkdir (gaia_dir wd dr)) (\<lambda>_.
     io_bind (if verbose self
              then logmsg INFO (''Saving gaia catalogue to cache '' @ gaia_save_path wd dr tilename)
              else io_return ()) (\<lambda>_.
     io_bind (to_csv (gaia_save_path wd dr tilename) gaia_data) (\<lambda>_.
     io_return gaia_data)))"

definition get_gaia ::
  "services \<Rightarrow> config \<Rightarrow> coord \<Rightarrow> string \<Rightarrow> path option \<Rightarrow> string option \<Rightarrow> real option
     \<Rightarrow> table io" where
  "get_gaia srv self tile_coords tilename workdir_arg gaia_dr_arg angle_arg =
     (let wd = or_default workdir_arg (workdir self);
          dr = or_default gaia_dr_arg (gaia_dr self);
          ang = or_default angle_arg (angle self)
      in io_bind (get_gaia_fetch srv self tile_coords wd dr ang) (\<lambda>gaia_data.
         io_bind module_logger_info (\<lambda>_.
         get_gaia_save self wd dr tilename gaia_data)))"

section \<open>The quality selection\<close>

text \<open>Lines 294-295: the magnitude window.\<close>

definition mag_sample :: "config \<Rightarrow> table \<Rightarrow> error + bool list" where
  "mag_sample self scat =
     bind (getcol scat (mag_column self)) (\<lambda>m.
     mask_and (map (\<lambda>c. cell_gt c (Some 14)) m) (map (\<lambda>c. cell_lt c (Some 19)) m))"

text \<open>Lines 296-300.\<close>

definition flags_stage :: "config \<Rightarrow> table \<Rightarrow> bool list \<Rightarrow> bool list io" where
  "flags_stage self scat sample =
     (case flags_column self of
        None \<Rightarrow>
          io_bind (logmsg WARNING ''FLAGS column not available. Skipping using flags to object selection'')
            (\<lambda>_. io_return sample)
      | Some c \<Rightarrow>
          io_lift (bind (getcol scat c) (\<lambda>f.
                   mask_and sample (map (\<lambda>x. cell_eq x (Some 0)) f))))"

text \<open>
  Lines 301-309. The configured case is a \<open>try\<close> with a \<open>finally\<close>: the warning is
  logged whether the selection succeeded or not, and an exception goes on.
\<close>

definition clstar_stage :: "config \<Rightarrow> table \<Rightarrow> bool list \<Rightarrow> bool list io" where
  "clstar_stage self scat sample =
     (case clstar_column self of
        None \<Rightarrow>
          io_bind (logmsg WARNING
                     ''CLASS_STAR column not available. Skipping using CLASS_STAR to object selection'')
            (\<lambda>_. io_return sample)
      | Some c \<Rightarrow>
          (\<lambda>w. (bind (getcol scat c) (\<lambda>f.
                  mask_and sample (map (\<lambda>x. cell_gt x (Some (95 / 100))) f)),
                 emit (Log WARNING ''Column for CLASS_STAR not found. Ignoring'') w)))"

text \<open>Lines 310-314.\<close>

definition fwhm_stage :: "config \<Rightarrow> table \<Rightarrow> bool list \<Rightarrow> bool list io" where
  "fwhm_stage self scat sample =
     (case fwhm_column self of
        None \<Rightarrow>
          io_bind (logmsg WARNING ''FWHM column not available. Skipping using FWHM to object selection'')
            (\<lambda>_. io_return sample)
      | Some c \<Rightarrow>
          io_lift (bind (getcol scat c) (\<lambda>f.
                   mask_and sample
                     (map (\<lambda>x. cell_mul_lt x 3600 (25 / 10)) f))))"

text \<open>Lines 315-319.\<close>

definition sn_stage :: "config \<Rightarrow> table \<Rightarrow> bool list \<Rightarrow> bool list io" where
  "sn_stage self scat sample =
     (case sn_column self of
        None \<Rightarrow>
          io_bind (logmsg WARNING ''SN column not available. Skipping using SN to object selection'')
            (\<lambda>_. io_return sample)
      | Some c \<Rightarrow>
          io_lift (bind (getcol scat c) (\<lambda>f.
                   mask_and sample (map (\<lambda>x. cell_gt x (Some (sn_limit self))) f))))"

definition select_sample :: "config \<Rightarrow> table \<Rightarrow> bool list io" where
  "select_sample self scat =
     io_bind (io_lift (mag_sample self scat)) (\<lambda>s0.
     io_bind (flags_stage self scat s0) (\<lambda>s1.
     io_bind (clstar_stage self scat s1) (\<lambda>s2.
     io_bind (fwhm_stage self scat s2) (\<lambda>s3.
     sn_stage self scat s3))))"

section \<open>The outlier trim and the differences\<close>

text \<open>Arithmetic on whole columns; numpy raises \<open>ValueError\<close> when the lengths differ.\<close>

definition col_zip :: "(cell \<Rightarrow> cell \<Rightarrow> cell) \<Rightarrow> column \<Rightarrow> column \<Rightarrow> error + column" where
  "col_zip f a b =
     (if length a = length b then Inr (map (\<lambda>(x, y). f x y) (zip a b)) else Inl ValueError)"

text \<open>\<open>xs[mask]\<close> on one column.\<close>

definition col_select :: "bool list \<Rightarrow> 'a list \<Rightarrow> error + 'a list" where
  "col_select m xs = (if length m = length xs then Inr (mask_select m xs) else Inl IndexError)"

text \<open>\<open>abspm[~mx.mask]\<close>: the values that \<open>masked_invalid\<close> leaves unmasked.\<close>

definition finite_values :: "column \<Rightarrow> real list" where
  "finite_values xs = concat (map (\<lambda>c. case c of None \<Rightarrow> [] | Some x \<Rightarrow> [x]) xs)"

text \<open>
  numpy's \<open>_lerp\<close>: the interpolation between two neighbours at the fraction
  \<open>t\<close>, taken from the lower one when \<open>t\<close> is below one half and from the upper
  one otherwise.
\<close>

definition lerp :: "real \<Rightarrow> real \<Rightarrow> real \<Rightarrow> cell" where
  "lerp a b t =
     (let diff_b_a = cell_sub (Some b) (Some a)
      in if 1 / 2 \<le> t then cell_sub (Some b) (cell_mul diff_b_a (cell_sub (Some 1) (Some t)))
         else cell_add (Some a) (cell_mul diff_b_a (Some t)))"

text \<open>
  \<open>np.percentile(a, q)\<close> with the default linear method, as numpy 1.22 and later
  compute it: the quantile is \<open>q / 100\<close>, the virtual index is \<open>(n - 1)\<close> times the
  quantile, and the value is interpolated between the two neighbours of the sorted data
  at the fractional part of the index; at the last index or beyond, it is the largest
  value. On empty data numpy has no value to give; the model raises there.
\<close>

definition percentile :: "real list \<Rightarrow> real \<Rightarrow> error + cell" where
  "percentile a q =
     (case double_of (q / 100) of
        None \<Rightarrow> Inl ValueError
      | Some quantile \<Rightarrow>
          if quantile < 0 \<or> 1 < quantile then Inl ValueError
          else if a = [] then Inl IndexError
          else (let s = sort a; n = length a
                in case double_of (real (n - 1) * quantile) of
                     None \<Rightarrow> Inr None
                   | Some h \<Rightarrow>
                       if real (n - 1) \<le> h then Inr (Some (s ! (n - 1)))
                       else (case double_of (h - of_int \<lfloor>h\<rfloor>) of
                               None \<Rightarrow> Inr None
                             | Some g \<Rightarrow> Inr (lerp (s ! nat \<lfloor>h\<rfloor>) (s ! (nat \<lfloor>h\<rfloor> + 1)) g))))"

text \<open>Line 324.\<close>

definition abspm_col :: "table \<Rightarrow> error + column" where
  "abspm_col finalgaia =
     bind (getcol finalgaia ''pmRA'') (\<lambda>pmra.
     bind (getcol finalgaia ''pmDE'') (\<lambda>pmde.
     col_zip cell_add (map cell_abs pmra) (map cell_abs pmde)))"

text \<open>Lines 326-328.\<close>

definition trim_mask :: "column \<Rightarrow> error + bool list" where
  "trim_mask abspm =
     bind (percentile (finite_values abspm) 95) (\<lambda>lmt.
     mask_and (map (\<lambda>c. cell_lt c lmt) abspm) (map (\<lambda>c. c \<noteq> None) abspm))"

text \<open>Lines 329-331.\<close>

definition dediff_col :: "config \<Rightarrow> table \<Rightarrow> table \<Rightarrow> bool list \<Rightarrow> error + column" where
  "dediff_col self finalscat finalgaia msk =
     bind (getcol finalscat (decolumn self)) (\<lambda>sde.
     bind (col_select msk sde) (\<lambda>sde_m.
     bind (getcol finalgaia ''DEJ2000'') (\<lambda>gde.
     bind (col_select msk gde) (\<lambda>gde_m.
     bind (col_zip cell_sub sde_m gde_m) (\<lambda>d.
     Inr (map (\<lambda>x. cell_mul (Some 3600) x) d))))))"

definition cos_deg :: "services \<Rightarrow> cell \<Rightarrow> cell" where
  "cos_deg srv a = (case a of None \<Rightarrow> None | Some x \<Rightarrow> np_cos_deg srv x)"

text \<open>Lines 333-334.\<close>

definition radiff_col ::
  "services \<Rightarrow> config \<Rightarrow> table \<Rightarrow> table \<Rightarrow> bool list \<Rightarrow> error + column" where
  "radiff_col srv self finalscat finalgaia msk =
     bind (getcol finalscat (racolumn self)) (\<lambda>sra.
     bind (col_select msk sra) (\<lambda>sra_m.
     bind (getcol finalgaia ''RAJ2000'') (\<lambda>gra.
     bind (col_select msk gra) (\<lambda>gra_m.
     bind (col_zip cell_sub sra_m gra_m) (\<lambda>d.
     bind (getcol finalgaia ''DEJ2000'') (\<lambda>gde.
     bind (col_select msk gde) (\<lambda>gde_m.
     col_zip cell_mul (map (\<lambda>x. cell_mul (Some 3600) x) d) (map (cos_deg srv) gde_m))))))))"

text \<open>
  Lines 336-343: the columns of the result. A DataFrame takes columns of one length
  only.
\<close>

definition results_frame :: "table \<Rightarrow> error + table" where
  "results_frame d =
     (if list_all (\<lambda>(_, xs). length xs = nrows d) d then Inr d else Inl ValueError)"

definition results_table ::
  "config \<Rightarrow> table \<Rightarrow> table \<Rightarrow> column \<Rightarrow> bool list \<Rightarrow> column \<Rightarrow> column \<Rightarrow> error + table" where
  "results_table self finalscat finalgaia abspm msk radiff dediff =
     bind (getcol finalscat (racolumn self)) (\<lambda>sra.
     bind (col_select msk sra) (\<lambda>c_ra.
     bind (getcol finalscat (decolumn self)) (\<lambda>sde.
     bind (col_select msk sde) (\<lambda>c_dec.
     bind (getcol finalgaia ''RAJ2000'') (\<lambda>gra.
     bind (col_select msk gra) (\<lambda>c_gra.
     bind (getcol finalgaia ''DEJ2000'') (\<lambda>gde.
     bind (col_select msk gde) (\<lambda>c_gde.
     bind (col_select msk abspm) (\<lambda>c_pm.
     results_frame
       [(''RA'', c_ra), (''DEC'', c_dec), (''RAJ2000'', c_gra), (''DEJ2000'', c_gde),
        (''radiff'', radiff), (''dediff'', dediff), (''abspm'', c_pm)])))))))))"

text \<open>
  Lines 321-343 together: from the survey table, the reference table, the match and the
  quality selection to the table that is written.
\<close>

definition astdiff_rows ::
  "services \<Rightarrow> config \<Rightarrow> table \<Rightarrow> table \<Rightarrow> nat list \<Rightarrow> bool list \<Rightarrow> bool list
     \<Rightarrow> error + table" where
  "astdiff_rows srv self scat gaia_data idx separation sample =
     bind (mask_and separation sample) (\<lambda>keep.
     bind (select_rows keep scat) (\<lambda>finalscat.
     bind (take_rows idx gaia_data) (\<lambda>matched.
     bind (select_rows keep matched) (\<lambda>finalgaia.
     bind (abspm_col finalgaia) (\<lambda>abspm.
     bind (trim_mask abspm) (\<lambda>msk.
     bind (dediff_col self finalscat finalgaia msk) (\<lambda>dediff.
     bind (radiff_col srv self finalscat finalgaia msk) (\<lambda>radiff.
     results_table self finalscat finalgaia abspm msk radiff dediff))))))))"

section \<open>calculate_astdiff\<close>

text \<open>Line 237.\<close>

definition results_dir_of :: "path \<Rightarrow> path" where
  "results_dir_of wd = os_path_join wd ''results/''"

text \<open>Lines 245-246.\<close>

definition path_to_results :: "path \<Rightarrow> string \<Rightarrow> path" where
  "path_to_results results_dir tile = os_path_join results_dir (tile @ ''_mar-gaiaDR3_diff.csv'')"

text \<open>Lines 256-257: where the differencer looks for a saved reference catalogue.\<close>

definition gaia_cat_path :: "path \<Rightarrow> string \<Rightarrow> string \<Rightarrow> path" where
  "gaia_cat_path wd dr tile = os_path_join wd (''gaia_'' @ dr @ ''/'' @ tile @ ''.csv'')"

definition survey_cat_path :: "path \<Rightarrow> string \<Rightarrow> string \<Rightarrow> string \<Rightarrow> path" where
  "survey_cat_path wd pre tile suf = os_path_join wd (pre @ tile @ suf)"

definition first_elem :: "'a list \<Rightarrow> error + 'a" where
  "first_elem xs = (case xs of [] \<Rightarrow> Inl IndexError | x # _ \<Rightarrow> Inr x)"

text \<open>
  \<open>SkyCoord\<close> refuses a declination outside the range from \<open>- 90\<close> to \<open>90\<close>
  degrees with \<open>ValueError\<close>; a NaN passes the test, and a right ascension is not
  restricted.
\<close>

definition valid_latitude :: "cell \<Rightarrow> bool" where
  "valid_latitude d = (case d of None \<Rightarrow> True | Some x \<Rightarrow> - 90 \<le> x \<and> x \<le> 90)"

text \<open>Lines 251-254: the centre of the tile, from the footprint rows of that name.\<close>

definition tile_centre :: "footprint \<Rightarrow> string list \<Rightarrow> string \<Rightarrow> error + coord" where
  "tile_centre fp field_names tile =
     (let m = map (\<lambda>n. n = tile) field_names
      in bind (col_select m (RA fp)) (\<lambda>sra.
         bind (col_select m (DEC fp)) (\<lambda>sdec.
         bind (first_elem sra) (\<lambda>r.
         bind (first_elem sdec) (\<lambda>d.
         if valid_latitude d then Inr (r, d) else Inl ValueError)))))"

text \<open>
  Lines 256-262. The fetch is called as \<open>self.get_gaia(tile_coords, tile)\<close>: working
  directory and release are the object's, the radius is the default \<open>1.0\<close> of the
  signature.
\<close>

definition load_gaia ::
  "services \<Rightarrow> config \<Rightarrow> path \<Rightarrow> string \<Rightarrow> coord \<Rightarrow> string \<Rightarrow> table io" where
  "load_gaia srv self wd dr tile_coords tile w =
     (if isfile w (gaia_cat_path wd dr tile)
      then io_bind (logmsg INFO ''Reading gaia cat from database'')
             (\<lambda>_. ascii_read_csv (gaia_cat_path wd dr tile)) w
      else get_gaia srv self tile_coords tile None None (Some 1) w)"

text \<open>\<open>try: m except TypeError: h\<close>.\<close>

definition except_type_error :: "'a io \<Rightarrow> 'a io \<Rightarrow> 'a io" where
  "except_type_error m h w =
     (case m w of (Inl (TypeError _), w') \<Rightarrow> h w' | r \<Rightarrow> r)"

text \<open>Lines 264-284.\<close>

definition load_survey :: "config \<Rightarrow> path \<Rightarrow> string \<Rightarrow> string \<Rightarrow> string \<Rightarrow> table io" where
  "load_survey self wd pre suf tile =
     (if filetype self = ''.fits'' then
        except_type_error
          (fits_open_data (survey_cat_path wd pre tile suf) (cathdu self))
          (io_bind (logmsg ERROR
             ''Catalogue is not in FITS format. Define the proper format of the default variable filetype'')
             (\<lambda>_. io_raise (TypeError ''Catalogue is not in FITS format'')))
      else if filetype self = ''.csv'' then
        except_type_error
          (pd_read_csv (survey_cat_path wd pre tile suf))
          (io_bind (logmsg ERROR
             ''Catalogue is not in CSV format. Define the proper format of the default variable filetype'')
             (\<lambda>_. io_raise (TypeError ''Catalogue is not in CSV format'')))
      else
        io_bind (logmsg ERROR ''Filetype for input catalogue not supported. Use FITS or CSV'')
          (\<lambda>_. io_raise (TypeError ''Filetype for input catalogue not supported'')))"

text \<open>
  \<open>SkyCoord(ra=t[a], dec=t[b], unit=(u.deg, u.deg))\<close>: two columns of one length, and
  every declination in range.
\<close>

definition sky_coords :: "table \<Rightarrow> string \<Rightarrow> string \<Rightarrow> error + coord list" where
  "sky_coords t a b =
     bind (getcol t a) (\<lambda>ra.
     bind (getcol t b) (\<lambda>de.
     if length ra = length de \<and> list_all valid_latitude de then Inr (zip ra de)
     else Inl ValueError))"

text \<open>Line 292.\<close>

definition separation_mask :: "cell list \<Rightarrow> bool list" where
  "separation_mask d2d = map (\<lambda>d. cell_lt d (Some 5)) d2d"

text \<open>Lines 251-346: the work on a tile that has no result yet.\<close>

definition process_new_tile ::
  "services \<Rightarrow> config \<Rightarrow> footprint \<Rightarrow> string list \<Rightarrow> path \<Rightarrow> string \<Rightarrow> string \<Rightarrow> string
     \<Rightarrow> path \<Rightarrow> string \<Rightarrow> unit io" where
  "process_new_tile srv self fp field_names wd dr pre suf results_dir tile =
     io_bind (io_lift (tile_centre fp field_names tile)) (\<lambda>tile_coords.
     io_bind (load_gaia srv self wd dr tile_coords tile) (\<lambda>gaia_data.
     io_bind (load_survey self wd pre suf tile) (\<lambda>scat.
     io_bind (io_lift (sky_coords scat (racolumn self) (decolumn self))) (\<lambda>splus_coords.
     io_bind (io_lift (sky_coords gaia_data ''RAJ2000'' ''DEJ2000'')) (\<lambda>gaia_coords.
     io_bind (io_lift (match_to_catalog_3d srv splus_coords gaia_coords)) (\<lambda>(idx, d2d).
     io_bind (select_sample self scat) (\<lambda>sample.
     io_bind (io_lift (astdiff_rows srv self scat gaia_data idx (separation_mask d2d) sample))
       (\<lambda>results.
     io_bind (logmsg INFO (''saving results to '' @ path_to_results results_dir tile)) (\<lambda>_.
     io_bind (\<lambda>w. (Inr (), emit (Print (''saving results to '' @ path_to_results results_dir tile)) w))
       (\<lambda>_.
     to_csv (path_to_results results_dir tile) results))))))))))"

text \<open>Lines 242-346: the body of the loop over the tiles.\<close>

definition process_tile ::
  "services \<Rightarrow> config \<Rightarrow> footprint \<Rightarrow> string list \<Rightarrow> path \<Rightarrow> string \<Rightarrow> string \<Rightarrow> string
     \<Rightarrow> path \<Rightarrow> string \<Rightarrow> unit io" where
  "process_tile srv self fp field_names wd dr pre suf results_dir tile w =
     (if tile = ''fakename'' then logmsg INFO ''This is a filler name'' w
      else if isfile w (path_to_results results_dir tile)
      then logmsg INFO (''Catalogue for tile '' @ tile @ '' already exists. Skipping'') w
      else process_new_tile srv self fp field_names wd dr pre suf results_dir tile w)"

fun for_each :: "('a \<Rightarrow> unit io) \<Rightarrow> 'a list \<Rightarrow> unit io" where
  "for_each f [] = io_return ()"
| "for_each f (x # xs) = io_bind (f x) (\<lambda>_. for_each f xs)"

text \<open>
  The method. Its loop runs over the name \<open>fields\<close>, which is not among its
  parameters: it is the module-level variable, passed here as the list of names that
  the iteration yields.
\<close>

definition calculate_astdiff ::
  "services \<Rightarrow> config \<Rightarrow> string list \<Rightarrow> footprint \<Rightarrow> string list \<Rightarrow> path option
     \<Rightarrow> string option \<Rightarrow> string option \<Rightarrow> string option \<Rightarrow> unit io" where
  "calculate_astdiff srv self fields_global fp field_names workdir_arg gaia_dr_arg preffix_arg suffix_arg =
     (let dr = or_default gaia_dr_arg (gaia_dr self);
          wd = or_default workdir_arg (workdir self);
          pre = or_default preffix_arg (cat_name_preffix self);
          suf = or_default suffix_arg (cat_name_suffix self);
          results_dir = results_dir_of wd
      in io_bind (\<lambda>w. if \<not> isdir w results_dir then os_mkdir results_dir w else (Inr (), w))
           (\<lambda>_. for_each (process_tile srv self fp field_names wd dr pre suf results_dir) fields_global))"

section \<open>The main program\<close>

fun show_nat :: "nat \<Rightarrow> string" where
  "show_nat n =
     (if n < 10 then [char_of (48 + n)]
      else show_nat (n div 10) @ [char_of (48 + n mod 10)])"

definition print :: "string \<Rightarrow> unit io" where
  "print s w = (Inr (), emit (Print s) w)"

text \<open>
  Lines 95-100: without arguments the parser prints the help and raises; otherwise
  argparse decides, which is taken as it is (it gives the attributes and the value of
  \<open>--footprint\<close>, or exits).
\<close>

definition parser ::
  "(string list \<Rightarrow> error + config \<times> path) \<Rightarrow> string list \<Rightarrow> (config \<times> path) io" where
  "parser parse_args argv =
     (if length argv = 1
      then io_bind (print ''usage'')
             (\<lambda>_. io_raise (ArgumentTypeError ''No arguments provided. Showing the help message.''))
      else io_lift (parse_args argv))"

text \<open>\<open>path.split('/')\<close>.\<close>

fun split_sep :: "string \<Rightarrow> string list" where
  "split_sep [] = [[]]"
| "split_sep (c # cs) =
     (if c = CHR ''/'' then [] # split_sep cs
      else (case split_sep cs of [] \<Rightarrow> [[c]] | x # xs \<Rightarrow> (c # x) # xs))"

fun join_sep :: "string list \<Rightarrow> string" where
  "join_sep [] = []"
| "join_sep [x] = x"
| "join_sep (x # y # ys) = x @ ''/'' @ join_sep (y # ys)"

text \<open>
  \<open>os.path.normpath\<close> as posixpath defines it: empty and \<open>.\<close> components are
  dropped, a \<open>..\<close> takes back the component before it, and one or two leading slashes
  are kept.
\<close>

definition norm_step :: "bool \<Rightarrow> string list \<Rightarrow> string \<Rightarrow> string list" where
  "norm_step initial_slashes new_comps part =
     (if part = [] \<or> part = ''.'' then new_comps
      else if part \<noteq> ''..'' \<or> (\<not> initial_slashes \<and> new_comps = []) \<or>
              (new_comps \<noteq> [] \<and> last new_comps = ''..'')
      then new_comps @ [part]
      else if new_comps \<noteq> [] then butlast new_comps
      else new_comps)"

definition normpath :: "path \<Rightarrow> path" where
  "normpath p =
     (if p = [] then ''.''
      else (let initial_slashes =
                  (if \<not> startswith_sep p then 0
                   else if startswith_sep (drop 1 p) \<and> \<not> startswith_sep (drop 2 p) then 2
                   else (1 :: nat));
                comps = foldl (norm_step (0 < initial_slashes)) [] (split_sep p);
                res = replicate initial_slashes CHR ''/'' @ join_sep comps
            in if res = [] then ''.'' else res))"

text \<open>\<open>os.path.abspath\<close>, for the current directory \<open>cwd\<close>.\<close>

definition abspath :: "path \<Rightarrow> path \<Rightarrow> path" where
  "abspath cwd p = normpath (if startswith_sep p then p else os_path_join cwd p)"

definition ascii_read_footprint :: "path \<Rightarrow> footprint io" where
  "ascii_read_footprint p w =
     (case files w p of
        None \<Rightarrow> (Inl (FileNotFoundError p), emit (ReadFile p) w)
      | Some (FootprintFile f) \<Rightarrow> (Inr f, emit (ReadFile p) w)
      | Some _ \<Rightarrow> (Inl (OSError p), emit (ReadFile p) w))"

text \<open>Lines 510-531.\<close>

definition get_footprint :: "path \<Rightarrow> path \<Rightarrow> footprint io" where
  "get_footprint cwd foot_path w =
     (case ascii_read_footprint (abspath cwd foot_path) w of
        (Inl (FileNotFoundError _), w') \<Rightarrow>
          io_bind (logmsg ERROR (''Footprint file '' @ abspath cwd foot_path @ '' not found''))
            (\<lambda>_. io_raise (SystemExit 1)) w'
      | r \<Rightarrow> r)"

text \<open>Lines 534-545.\<close>

definition get_fields_names :: "footprint \<Rightarrow> string list" where
  "get_fields_names fp = map (map (\<lambda>c. if c = CHR ''_'' then CHR ''-'' else c)) (NAME fp)"

definition read_tile_list :: "path \<Rightarrow> string list io" where
  "read_tile_list p w =
     (case files w p of
        None \<Rightarrow> (Inl (FileNotFoundError p), emit (ReadFile p) w)
      | Some (TileList ns) \<Rightarrow> (Inr ns, emit (ReadFile p) w)
      | Some _ \<Rightarrow> (Inl (OSError p), emit (ReadFile p) w))"

text \<open>
  Lines 549-567: everything the program does before line 569. \<open>call_logger\<close> only
  configures the logging handlers and leaves no event.
\<close>

definition main_setup ::
  "(string list \<Rightarrow> error + config \<times> path) \<Rightarrow> string list \<Rightarrow> path
     \<Rightarrow> (config \<times> string list \<times> footprint \<times> string list) io" where
  "main_setup parse_args argv cwd =
     io_bind (parser parse_args argv) (\<lambda>(args, foot_path).
       (let gasp = args\<lparr>datadir := Some (or_default (datadir args) (workdir args))\<rparr>;
            textfile_path = os_path_join (workdir gasp) (tiles gasp)
        in io_bind (\<lambda>w. if isfile w textfile_path \<or> isdir w textfile_path then (Inr (), w)
                        else (Inl (AssertionError (''File '' @ textfile_path @ '' does not exist'')), w))
             (\<lambda>_.
           io_bind (read_tile_list textfile_path) (\<lambda>names.
           io_bind (get_footprint cwd foot_path) (\<lambda>fp.
           io_return (gasp, names, fp, get_fields_names fp))))))"

text \<open>Line 569: \<open>sys.exit()\<close> raises \<open>SystemExit\<close> with status 0.\<close>

definition sys_exit :: "unit io" where
  "sys_exit = io_raise (SystemExit 0)"

text \<open>Line 571.\<close>

definition num_procs :: nat where
  "num_procs = 8"

text \<open>
  Lines 601-608: the parent asks once per second whether a job is still alive. The
  answers come from outside (\<open>alive k\<close> is the answer to the \<open>k\<close>-th question); a
  job that never ends keeps the loop running for ever.
\<close>

partial_function (option) wait_jobs :: "(nat \<Rightarrow> bool) \<Rightarrow> nat \<Rightarrow> world \<Rightarrow> world option" where
  "wait_jobs alive k w =
     (if alive k then wait_jobs alive (Suc k) (emit (Sleep 1) w)
      else Some (emit (Print ''All jobs finished'') w))"

text \<open>Lines 575-583: pad the list of names to a multiple of the number of jobs.\<close>

definition pad_fields :: "nat \<Rightarrow> string list \<Rightarrow> string list io" where
  "pad_fields np b =
     (let num_fields = length (remdups b)
      in if num_fields mod np > 0
         then io_bind (print (''reprojecting '' @ show_nat num_fields @ '' fields'')) (\<lambda>_.
              io_bind (print (show_nat num_fields @ '' already fulfill the conditions'')) (\<lambda>_.
              io_return (b @ replicate ((num_fields div np + 1) * np - num_fields) ''fakename'')))
         else io_return b)"

text \<open>Lines 584-585: \<open>reshape\<close> into one row per job.\<close>

fun chunks :: "nat \<Rightarrow> nat \<Rightarrow> 'a list \<Rightarrow> 'a list list" where
  "chunks 0 len xs = []"
| "chunks (Suc k) len xs = take len xs # chunks k len (drop len xs)"

definition reshape :: "nat \<Rightarrow> string list \<Rightarrow> string list list io" where
  "reshape np b =
     (if np * (length b div np) = length b then io_return (chunks np (length b div np) b)
      else io_raise ValueError)"

text \<open>
  Lines 574-610, the body of \<open>if num_procs == 1\<close>, for a number of jobs \<open>np\<close>: one
  process per row is created and started, then the parent waits.
\<close>

definition fan_out ::
  "nat \<Rightarrow> (nat \<Rightarrow> bool) \<Rightarrow> string list \<Rightarrow> world \<Rightarrow> ((error + unit) \<times> world) option" where
  "fan_out np alive b w =
     (case io_bind (pad_fields np b) (\<lambda>b'.
           io_bind (reshape np b') (\<lambda>rows.
           io_bind (print (''calculating for a total of '' @ show_nat (length (concat rows)) @ '' fields''))
             (\<lambda>_.
           io_bind (print (''creating '' @ show_nat np @ '' jobs...'')) (\<lambda>_.
           io_bind (print (''starting '' @ show_nat np @ '' jobs!'')) (\<lambda>_.
           for_each (\<lambda>row w. (Inr (), emit (StartProcess row) w)) rows))))) w of
        (Inl e, w') \<Rightarrow> Some (Inl e, w')
      | (Inr _, w') \<Rightarrow>
          (case wait_jobs alive 0 w' of
             None \<Rightarrow> None
           | Some w'' \<Rightarrow> Some (Inr (), emit (Print ''Done!'') w'')))"

text \<open>
  Lines 570-612: what follows line 569 in the file. The name \<open>make_plot\<close> of line
  612 is bound nowhere.
\<close>

definition after_exit ::
  "(nat \<Rightarrow> bool) \<Rightarrow> string list \<Rightarrow> world \<Rightarrow> ((error + unit) \<times> world) option" where
  "after_exit alive names w =
     (case (if num_procs = 1 then fan_out num_procs alive names w else Some (Inr (), w)) of
        None \<Rightarrow> None
      | Some (Inl e, w') \<Rightarrow> Some (Inl e, w')
      | Some (Inr _, w') \<Rightarrow> Some (Inl (NameError ''make_plot''), w'))"

definition main ::
  "(string list \<Rightarrow> error + config \<times> path) \<Rightarrow> string list \<Rightarrow> path \<Rightarrow> (nat \<Rightarrow> bool)
     \<Rightarrow> world \<Rightarrow> ((error + unit) \<times> world) option" where
  "main parse_args argv cwd alive w =
     (case main_setup parse_args argv cwd w of
        (Inl e, w') \<Rightarrow> Some (Inl e, w')
      | (Inr (gasp, names, fp, field_names), w') \<Rightarrow>
          (case sys_exit w' of
             (Inl e, w'') \<Rightarrow> Some (Inl e, w'')
           | (Inr _, w'') \<Rightarrow> after_exit alive names w''))"

section \<open>Concrete inputs\<close>

definition ex_self :: config where
  "ex_self = \<lparr>tiles = ''tiles.csv'', workdir = ''w'', datadir = None, gaia_dr = ''355'',
     cat_name_preffix = [], cat_name_suffix = ''.fits'', cathdu = 1,
     racolumn = ''RA'', decolumn = ''DEC'', mag_column = ''MAG_AUTO'',
     flags_column = None, clstar_column = None, fwhm_column = None, sn_column = None,
     filetype = ''.fits'', angle = 1, sn_limit = 10, verbose = False\<rparr>"

definition ex_fp :: footprint where
  "ex_fp = \<lparr>NAME = [''T1''], RA = [Some 1], DEC = [Some 20]\<rparr>"

text \<open>A cosine that is rounded correctly, one of the cosines a library may have.\<close>

definition ex_cos :: "real \<Rightarrow> cell" where
  "ex_cos x = double_of (cos (x * pi / 180))"

text \<open>A service that is down and a matcher that is never asked.\<close>

definition ex_srv_down :: services where
  "ex_srv_down = \<lparr>query_region = (\<lambda>_ _ _. Inl (RemoteError ''down'')),
     match_to_catalog_3d = (\<lambda>_ _. Inl ValueError), np_cos_deg = ex_cos\<rparr>"

text \<open>A working directory in which tile \<open>T1\<close> already has its result.\<close>

definition ex_done_world :: world where
  "ex_done_world = \<lparr>files = [''w/results/T1_mar-gaiaDR3_diff.csv'' \<mapsto> Csv []],
     dirs = {''w'', ''w/results/''}, trace = []\<rparr>"

text \<open>
  The reference catalogue of tile \<open>T1\<close>, four rows, and the survey catalogue, five
  rows. All values are doubles. The second reference row is at the doubles nearest to
  10.001 and 20.0005 degrees, and the first survey row at 10.0 and 20.0 degrees. The
  third reference row has no proper motion in right ascension.
\<close>

definition ex_gaia :: table where
  "ex_gaia = [(''RAJ2000'', [Some 30, Some (5630062484166541 / 562949953421312), Some 50,
                             Some (30721 / 512)]),
              (''DEJ2000'', [Some 40, Some (5629640271701475 / 281474976710656), Some (- 10),
                             Some 5]),
              (''pmRA'', [Some (- 4), Some (1 / 2), None, Some 2]),
              (''pmDE'', [Some 6, Some (- (1 / 2)), Some 1, Some 3])]"

definition ex_scat :: table where
  "ex_scat = [(''RA'', [Some 10, Some (122881 / 4096), Some 50, Some 60, Some (121 / 2)]),
              (''DEC'', [Some 20, Some (327681 / 8192), Some (- 10), Some 5, Some 5]),
              (''MAG_AUTO'', [Some (37 / 2), Some 16, Some 15, Some 17, Some 20]),
              (''FLAGS'', [Some 1, Some 0, Some 0, Some 0, Some 0])]"

text \<open>
  The answer of the matcher: the reference row nearest to each survey row and the
  separation in arcsec. The fourth survey row is 7 arcsec from its neighbour.
\<close>

definition ex_idx :: "nat list" where
  "ex_idx = [1, 0, 2, 3, 3]"

definition ex_d2d :: "cell list" where
  "ex_d2d = [Some (15 / 4), Some (3 / 4), Some 1, Some 7, Some 2]"

definition ex_srv :: services where
  "ex_srv = \<lparr>query_region = (\<lambda>_ _ _. Inl (RemoteError ''down'')),
     match_to_catalog_3d = (\<lambda>_ _. Inr (ex_idx, ex_d2d)), np_cos_deg = ex_cos\<rparr>"

text \<open>A working directory with both catalogues of \<open>T1\<close> and no result yet.\<close>

definition ex_world :: world where
  "ex_world = \<lparr>files = [''w/gaia_355/T1.csv'' \<mapsto> Csv ex_gaia,
                         ''w/T1.fits'' \<mapsto> Fits [[], ex_scat]],
     dirs = {''w'', ''w/results/'', ''w/gaia_355''}, trace = []\<rparr>"

text \<open>
  The result for \<open>T1\<close>: of the five survey rows only the first is left. The second
  has the larger proper motion of two, the third no valid proper motion, the fourth is
  too far from its neighbour and the fifth too faint.
\<close>

definition ex_results :: table where
  "ex_results = [(''RA'', [Some 10]), (''DEC'', [Some 20]),
          (''RAJ2000'', [Some (5630062484166541 / 562949953421312)]),
          (''DEJ2000'', [Some (5629640271701475 / 281474976710656)]),
          (''radiff'', [cell_mul (Some (- (126663739519725 / 35184372088832)))
                          (ex_cos (5629640271701475 / 281474976710656))]),
          (''dediff'', [Some (- (31665934879875 / 17592186044416))]), (''abspm'', [Some 1])]"

definition ex_world_after :: world where
  "ex_world_after = \<lparr>files = [''w/gaia_355/T1.csv'' \<mapsto> Csv ex_gaia,
                         ''w/T1.fits'' \<mapsto> Fits [[], ex_scat],
                         ''w/results/T1_mar-gaiaDR3_diff.csv'' \<mapsto> Csv ex_results],
     dirs = {''w'', ''w/results/'', ''w/gaia_355''},
     trace = [Log INFO ''Reading gaia cat from database'',
       ReadFile ''w/gaia_355/T1.csv'',
       ReadFile ''w/T1.fits'',
       Log WARNING ''FLAGS column not available. Skipping using flags to object selection'',
       Log WARNING ''CLASS_STAR column not available. Skipping using CLASS_STAR to object selection'',
       Log WARNING ''FWHM column not available. Skipping using FWHM to object selection'',
       Log WARNING ''SN column not available. Skipping using SN to object selection'',
       Log INFO ''saving results to w/results/T1_mar-gaiaDR3_diff.csv'',
       Print ''saving results to w/results/T1_mar-gaiaDR3_diff.csv'',
       WriteFile ''w/results/T1_mar-gaiaDR3_diff.csv'']\<rparr>"

text \<open>A command line, its parse, and a working directory with a tile list and a footprint.\<close>

definition ex_argv :: "string list" where
  "ex_argv = [''main.py'', ''-t'', ''tiles.csv'', ''-f'', ''foot.csv'', ''-w'', ''w'']"

definition ex_parse_args :: "string list \<Rightarrow> error + config \<times> path" where
  "ex_parse_args argv = (if argv = ex_argv then Inr (ex_self, ''foot.csv'') else Inl (SystemExit 2))"

definition ex_main_world :: world where
  "ex_main_world = \<lparr>files = [''w/tiles.csv'' \<mapsto> TileList [''T1''],
                              ''/home/foot.csv'' \<mapsto> FootprintFile ex_fp],
     dirs = {''w'', ''/home''}, trace = []\<rparr>"

text \<open>A service that answers every query with the reference table of \<open>T1\<close>.\<close>

definition ex_srv_up :: services where
  "ex_srv_up = \<lparr>query_region = (\<lambda>_ _ _. Inr [ex_gaia]),
     match_to_catalog_3d = (\<lambda>_ _. Inr (ex_idx, ex_d2d)), np_cos_deg = ex_cos\<rparr>"

text \<open>A working directory in which nothing was fetched yet.\<close>

definition ex_fresh_world :: world where
  "ex_fresh_world = \<lparr>files = [''w/T1.fits'' \<mapsto> Fits [[], ex_scat]],
     dirs = {''w'', ''w/results/''}, trace = []\<rparr>"

section \<open>The specification's notions\<close>

text \<open>
  The differences as the specification words them, for one pair: survey position,
  reference position, all in degrees; the result in arcsec. Every operation gives a
  double; the cosine is the library's.
\<close>

definition spec_dediff :: "cell \<Rightarrow> cell \<Rightarrow> cell" where
  "spec_dediff sdec gdec =
     (case (sdec, gdec) of
        (Some s, Some g) \<Rightarrow>
          (case double_of (s - g) of Some d \<Rightarrow> double_of (3600 * d) | None \<Rightarrow> None)
      | _ \<Rightarrow> None)"

definition spec_radiff :: "(real \<Rightarrow> cell) \<Rightarrow> cell \<Rightarrow> cell \<Rightarrow> cell \<Rightarrow> cell" where
  "spec_radiff cosine sra gra gdec =
     (case (sra, gra, gdec) of
        (Some a, Some b, Some d) \<Rightarrow>
          (case double_of (a - b) of
             Some x \<Rightarrow>
               (case double_of (3600 * x) of
                  Some y \<Rightarrow> (case cosine d of Some c \<Rightarrow> double_of (y * c) | None \<Rightarrow> None)
                | None \<Rightarrow> None)
           | None \<Rightarrow> None)
      | _ \<Rightarrow> None)"

text \<open>The summed absolute proper motion of a reference row.\<close>

definition spec_abspm :: "cell \<Rightarrow> cell \<Rightarrow> cell" where
  "spec_abspm pmra pmde =
     (case (pmra, pmde) of (Some x, Some y) \<Rightarrow> double_of (\<bar>x\<bar> + \<bar>y\<bar>) | _ \<Rightarrow> None)"

text \<open>The valid entries of a column, in order.\<close>

definition spec_valid_values :: "cell list \<Rightarrow> real list" where
  "spec_valid_values xs = map the (filter (\<lambda>c. c \<noteq> None) xs)"

text \<open>
  The survey rows that are matched within 5 arcsec and pass the quality selection, and
  among a list of rows those whose summed proper motion is valid and strictly below a
  limit.
\<close>

definition spec_matched :: "cell list \<Rightarrow> bool list \<Rightarrow> nat list" where
  "spec_matched d2d sample =
     filter (\<lambda>j. (case d2d ! j of Some d \<Rightarrow> d < 5 | None \<Rightarrow> False) \<and> sample ! j)
       [0..<length sample]"

definition spec_below :: "(nat \<Rightarrow> cell) \<Rightarrow> cell \<Rightarrow> nat list \<Rightarrow> nat list" where
  "spec_below pm lmt rows =
     filter (\<lambda>j. case (pm j, lmt) of (Some v, Some l) \<Rightarrow> v < l | _ \<Rightarrow> False) rows"

text \<open>
  The quality selection as the specification words it, for row \<open>i\<close> of the survey
  table: a condition on a column that is not configured holds; a condition on a
  configured column holds when the value of the row is valid and satisfies it. The
  FWHM in arcsec is the value of the column times 3600, as a double, or minus infinity
  when that product is below the smallest double.
\<close>

definition spec_cond :: "string option \<Rightarrow> table \<Rightarrow> nat \<Rightarrow> (real \<Rightarrow> bool) \<Rightarrow> bool" where
  "spec_cond col scat i P =
     (case col of
        None \<Rightarrow> True
      | Some c \<Rightarrow>
          (case map_of scat c of
             None \<Rightarrow> False
           | Some xs \<Rightarrow> (case xs ! i of None \<Rightarrow> False | Some x \<Rightarrow> P x)))"

definition spec_quality :: "config \<Rightarrow> table \<Rightarrow> nat \<Rightarrow> bool" where
  "spec_quality self scat i =
     (spec_cond (Some (mag_column self)) scat i (\<lambda>x. 14 < x \<and> x < 19) \<and>
      spec_cond (flags_column self) scat i (\<lambda>x. x = 0) \<and>
      spec_cond (clstar_column self) scat i (\<lambda>x. 95 / 100 < x) \<and>
      spec_cond (fwhm_column self) scat i
        (\<lambda>x. case double_of (x * 3600) of Some y \<Rightarrow> y < 25 / 10 | None \<Rightarrow> x < 0) \<and>
      spec_cond (sn_column self) scat i (\<lambda>x. sn_limit self < x))"

text \<open>The columns that the configuration names are columns of the table.\<close>

definition has_col :: "table \<Rightarrow> string option \<Rightarrow> bool" where
  "has_col scat col = (case col of None \<Rightarrow> True | Some c \<Rightarrow> map_of scat c \<noteq> None)"

definition columns_present :: "config \<Rightarrow> table \<Rightarrow> bool" where
  "columns_present self scat =
     (has_col scat (Some (mag_column self)) \<and> has_col scat (flags_column self) \<and>
      has_col scat (clstar_column self) \<and> has_col scat (fwhm_column self) \<and>
      has_col scat (sn_column self))"

text \<open>The worker processes that a run has started, in order.\<close>

definition started :: "world \<Rightarrow> string list list" where
  "started w = concat (map (\<lambda>e. case e of StartProcess row \<Rightarrow> [row] | _ \<Rightarrow> []) (trace w))"

section \<open>Properties\<close>

subsection \<open>Sequencing and paths\<close>

lemma io_bind_Inr:
  "io_bind m f w = (Inr x, w') \<longleftrightarrow> (\<exists>y w''. m w = (Inr y, w'') \<and> f y w'' = (Inr x, w'))"
  by (auto simp: io_bind_def split: prod.splits sum.splits)

lemma endswith_sep_append: "b \<noteq> [] \<Longrightarrow> endswith_sep (a @ b) = endswith_sep b"
  by (cases b rule: rev_cases) (auto simp: endswith_sep_def)

lemma startswith_sep_append:
  "startswith_sep (a @ b) = (if a = [] then startswith_sep b else startswith_sep a)"
  by (cases a) (auto simp: startswith_sep_def)

lemma results_path_form:
  assumes "\<not> startswith_sep tile" "wd \<noteq> []" "\<not> endswith_sep wd"
  shows "path_to_results (results_dir_of wd) tile = wd @ ''/results/'' @ tile @ ''_mar-gaiaDR3_diff.csv''"
  using assms
  by (simp add: path_to_results_def results_dir_of_def os_path_join_def startswith_sep_append
      endswith_sep_append) (simp add: startswith_sep_def endswith_sep_def)

lemma ex_results_path:
  "path_to_results (results_dir_of ''w'') ''T1'' = ''w/results/T1_mar-gaiaDR3_diff.csv''"
  by (simp add: path_to_results_def results_dir_of_def os_path_join_def startswith_sep_def
      endswith_sep_def)

subsection \<open>A tile that has its result is skipped\<close>

lemma to_csv_isfile: "to_csv p t w = (r, w') \<Longrightarrow> isfile w' p"
  by (auto simp: to_csv_def isfile_def emit_def)

lemma logmsg_isfile: "logmsg l s w = (r, w') \<Longrightarrow> isfile w' p = isfile w p"
  by (auto simp: logmsg_def emit_def isfile_def)

lemma process_new_tile_writes:
  assumes "process_new_tile srv self fp field_names wd dr pre suf results_dir tile w = (Inr u, w')"
  shows "isfile w' (path_to_results results_dir tile)"
  using assms unfolding process_new_tile_def
  by (auto simp: io_bind_Inr dest: to_csv_isfile)

lemma process_tile_done:
  assumes "process_tile srv self fp field_names wd dr pre suf results_dir tile w = (Inr u, w')"
    and "tile \<noteq> ''fakename''"
  shows "isfile w' (path_to_results results_dir tile)"
  using assms
  by (auto simp: process_tile_def split: if_splits dest: process_new_tile_writes logmsg_isfile)

lemma process_tile_skip:
  assumes "isfile w (path_to_results results_dir tile)" "tile \<noteq> ''fakename''"
  shows "process_tile srv self fp field_names wd dr pre suf results_dir tile w =
           (Inr (), w\<lparr>trace := trace w @
              [Log INFO (''Catalogue for tile '' @ tile @ '' already exists. Skipping'')]\<rparr>)"
  using assms by (simp add: process_tile_def logmsg_def emit_def)

lemma ex_done_isfile: "isfile ex_done_world ''w/results/T1_mar-gaiaDR3_diff.csv''"
  by (simp add: isfile_def ex_done_world_def)

lemma process_tile_skip_any:
  assumes "isfile w (path_to_results results_dir tile)"
  shows "\<exists>msg. process_tile srv self fp field_names wd dr pre suf results_dir tile w =
                 (Inr (), w\<lparr>trace := trace w @ [Log INFO msg]\<rparr>)"
proof (cases "tile = ''fakename''")
  case True
  then have "process_tile srv self fp field_names wd dr pre suf results_dir tile w =
               (Inr (), w\<lparr>trace := trace w @ [Log INFO ''This is a filler name'']\<rparr>)"
    by (simp add: process_tile_def logmsg_def emit_def)
  then show ?thesis by blast
next
  case False
  with assms show ?thesis using process_tile_skip by blast
qed

lemma calculate_astdiff_one:
  assumes "isdir w (results_dir_of (or_default workdir_arg (workdir self)))"
  shows "calculate_astdiff srv self [tile] fp field_names workdir_arg gaia_dr_arg preffix_arg suffix_arg w =
     io_bind (process_tile srv self fp field_names (or_default workdir_arg (workdir self))
                (or_default gaia_dr_arg (gaia_dr self)) (or_default preffix_arg (cat_name_preffix self))
                (or_default suffix_arg (cat_name_suffix self))
                (results_dir_of (or_default workdir_arg (workdir self))) tile)
       (\<lambda>_. io_return ()) w"
  using assms by (simp add: calculate_astdiff_def Let_def io_bind_def)

text \<open>
  Claim C2. When the result file of a tile exists, the loop body for that tile returns
  normally and changes nothing but the log: the files (so also the existing result) and
  the directories are the same, and the only event added to the trace is one log line,
  so no catalogue is queried, read or written. The same holds for the whole method run
  on that tile, in a working directory whose results directory exists.
\<close>

theorem C2_existing_result_is_skipped:
  "(isfile w (path_to_results results_dir tile) \<longrightarrow>
      (\<exists>msg. process_tile srv self fp field_names wd dr pre suf results_dir tile w =
                 (Inr (), w\<lparr>trace := trace w @ [Log INFO msg]\<rparr>)))
   \<and> (isfile w (path_to_results (results_dir_of (or_default workdir_arg (workdir self))) tile) \<and>
       isdir w (results_dir_of (or_default workdir_arg (workdir self))) \<longrightarrow>
      (\<exists>msg. calculate_astdiff srv self [tile] fp field_names workdir_arg gaia_dr_arg preffix_arg
                suffix_arg w =
                 (Inr (), w\<lparr>trace := trace w @ [Log INFO msg]\<rparr>)))"
proof (intro conjI impI)
  assume "isfile w (path_to_results results_dir tile)"
  then show "\<exists>msg. process_tile srv self fp field_names wd dr pre suf results_dir tile w =
                 (Inr (), w\<lparr>trace := trace w @ [Log INFO msg]\<rparr>)"
    by (rule process_tile_skip_any)
next
  assume a: "isfile w (path_to_results (results_dir_of (or_default workdir_arg (workdir self))) tile) \<and>
       isdir w (results_dir_of (or_default workdir_arg (workdir self)))"
  then obtain msg where
    "process_tile srv self fp field_names (or_default workdir_arg (workdir self))
                (or_default gaia_dr_arg (gaia_dr self)) (or_default preffix_arg (cat_name_preffix self))
                (or_default suffix_arg (cat_name_suffix self))
                (results_dir_of (or_default workdir_arg (workdir self))) tile w =
       (Inr (), w\<lparr>trace := trace w @ [Log INFO msg]\<rparr>)"
    using process_tile_skip_any by blast
  with a have "calculate_astdiff srv self [tile] fp field_names workdir_arg gaia_dr_arg preffix_arg
                suffix_arg w = (Inr (), w\<lparr>trace := trace w @ [Log INFO msg]\<rparr>)"
    by (simp add: calculate_astdiff_one io_bind_def io_return_def)
  then show "\<exists>msg. calculate_astdiff srv self [tile] fp field_names workdir_arg gaia_dr_arg preffix_arg
                suffix_arg w = (Inr (), w\<lparr>trace := trace w @ [Log INFO msg]\<rparr>)"
    by blast
qed

theorem C2_existing_result_is_skipped_witness:
  "isfile ex_done_world (path_to_results (results_dir_of ''w'') ''T1'') \<and>
   isdir ex_done_world (results_dir_of ''w'') \<and>
   (\<exists>msg. process_tile ex_srv_down ex_self ex_fp [''T1''] ''w'' ''355'' [] ''.fits''
            (results_dir_of ''w'') ''T1'' ex_done_world =
          (Inr (), ex_done_world\<lparr>trace := trace ex_done_world @ [Log INFO msg]\<rparr>)) \<and>
   (\<exists>msg. calculate_astdiff ex_srv_down ex_self [''T1''] ex_fp [''T1''] None None None None
            ex_done_world =
          (Inr (), ex_done_world\<lparr>trace := trace ex_done_world @ [Log INFO msg]\<rparr>))"
proof -
  have h: "isfile ex_done_world (path_to_results (results_dir_of ''w'') ''T1'')"
    by (simp add: ex_results_path ex_done_isfile)
  have d: "isdir ex_done_world (results_dir_of ''w'')"
    by (simp add: isdir_def results_dir_of_def os_path_join_def startswith_sep_def endswith_sep_def
        ex_done_world_def)
  have o: "or_default None (workdir ex_self) = ''w''"
    by (simp add: or_default_def ex_self_def)
  note th = C2_existing_result_is_skipped [of ex_done_world "results_dir_of ''w''" "''T1''"
      ex_srv_down ex_self ex_fp "[''T1'']" "''w''" "''355''" "[]" "''.fits''" None None None None,
      unfolded o]
  from th h d show ?thesis by blast
qed

subsection \<open>The result path does not depend on the release\<close>

text \<open>
  Claim C10. The result file of a tile is \<open>workdir/results/<tile>_mar-gaiaDR3_diff.csv\<close>
  (for a working directory and a tile name that \<open>os.path.join\<close> joins with a slash);
  the function that builds it has no release among its arguments. So once the loop body
  has returned normally for a tile, under whatever release, the loop body for the same
  tile and working directory skips the tile under every release, service and
  configuration.
\<close>

theorem C10_result_path_keyed_by_tile:
  "(\<not> startswith_sep tile \<and> wd \<noteq> [] \<and> \<not> endswith_sep wd \<longrightarrow>
      path_to_results (results_dir_of wd) tile = wd @ ''/results/'' @ tile @ ''_mar-gaiaDR3_diff.csv'')
   \<and> (tile \<noteq> ''fakename'' \<and>
        process_tile srv self fp field_names wd dr pre suf (results_dir_of wd) tile w = (Inr (), w') \<longrightarrow>
        (\<forall>srv2 self2 fp2 field_names2 dr2 pre2 suf2.
           process_tile srv2 self2 fp2 field_names2 wd dr2 pre2 suf2 (results_dir_of wd) tile w' =
             (Inr (), w'\<lparr>trace := trace w' @
                [Log INFO (''Catalogue for tile '' @ tile @ '' already exists. Skipping'')]\<rparr>)))"
proof (intro conjI impI allI)
  assume "\<not> startswith_sep tile \<and> wd \<noteq> [] \<and> \<not> endswith_sep wd"
  then show "path_to_results (results_dir_of wd) tile =
               wd @ ''/results/'' @ tile @ ''_mar-gaiaDR3_diff.csv''"
    using results_path_form by blast
next
  fix srv2 self2 fp2 field_names2 dr2 pre2 suf2
  assume a: "tile \<noteq> ''fakename'' \<and>
    process_tile srv self fp field_names wd dr pre suf (results_dir_of wd) tile w = (Inr (), w')"
  then have "isfile w' (path_to_results (results_dir_of wd) tile)"
    using process_tile_done by blast
  with a show "process_tile srv2 self2 fp2 field_names2 wd dr2 pre2 suf2 (results_dir_of wd) tile w' =
      (Inr (), w'\<lparr>trace := trace w' @
         [Log INFO (''Catalogue for tile '' @ tile @ '' already exists. Skipping'')]\<rparr>)"
    using process_tile_skip by blast
qed

subsection \<open>Selecting rows of tables\<close>

lemma bind_Inr: "bind m f = Inr x \<longleftrightarrow> (\<exists>y. m = Inr y \<and> f y = Inr x)"
  by (auto simp: bind_def split: sum.splits)

lemma mask_select_map: "mask_select m (map f xs) = map f (mask_select m xs)"
proof (induction xs arbitrary: m)
  case Nil
  then show ?case by (simp add: mask_select_def)
next
  case (Cons x xs)
  then show ?case by (cases m) (auto simp: mask_select_def)
qed

lemma mask_select_nth:
  "mask_select m xs = map ((!) xs) (mask_select m [0..<length xs])"
proof -
  have "mask_select m (map ((!) xs) [0..<length xs]) = map ((!) xs) (mask_select m [0..<length xs])"
    by (rule mask_select_map)
  then show ?thesis by (simp add: map_nth)
qed

lemma set_mask_select:
  "length m = length xs \<Longrightarrow> set (mask_select m xs) = {xs ! i | i. i < length xs \<and> m ! i}"
  by (auto simp: mask_select_def set_zip in_set_conv_nth image_iff) force+

lemma in_kept:
  "j \<in> set (mask_select m [0..<length m]) \<longleftrightarrow> j < length m \<and> m ! j"
proof -
  have "set (mask_select m [0..<length m]) = {[0..<length m] ! i | i. i < length [0..<length m] \<and> m ! i}"
    by (rule set_mask_select) simp
  also have "\<dots> = {i. i < length m \<and> m ! i}"
  proof (intro set_eqI iffI)
    fix x assume "x \<in> {[0..<length m] ! i | i. i < length [0..<length m] \<and> m ! i}"
    then show "x \<in> {i. i < length m \<and> m ! i}" by auto
  next
    fix x assume "x \<in> {i. i < length m \<and> m ! i}"
    then have "x = [0..<length m] ! x \<and> x < length [0..<length m] \<and> m ! x" by simp
    then show "x \<in> {[0..<length m] ! i | i. i < length [0..<length m] \<and> m ! i}" by blast
  qed
  finally show ?thesis by simp
qed

lemma col_zip_map:
  "col_zip f (map A rows) (map B rows) = Inr (map (\<lambda>j. f (A j) (B j)) rows)"
  by (simp add: col_zip_def zip_map_map zip_same_conv_map)

lemma getcol_select_rows:
  assumes "select_rows m t = Inr t'" "getcol t' c = Inr xs'"
  shows "\<exists>xs. getcol t c = Inr xs \<and> length xs = length m \<and> xs' = mask_select m xs"
proof -
  from assms(1) have all: "list_all (\<lambda>(_, xs). length xs = length m) t"
    and t': "t' = map (\<lambda>(n, xs). (n, mask_select m xs)) t"
    by (auto simp: select_rows_def split: if_splits)
  from assms(2) t' have "map_option (mask_select m) (map_of t c) = Some xs'"
    by (auto simp: getcol_def map_of_map split: option.splits)
  then obtain xs where xs: "map_of t c = Some xs" "xs' = mask_select m xs" by auto
  from xs(1) have "(c, xs) \<in> set t" by (rule map_of_SomeD)
  with all have "length xs = length m" by (auto simp: list_all_iff)
  with xs show ?thesis by (auto simp: getcol_def)
qed

lemma getcol_take_rows:
  assumes "take_rows idx t = Inr t'" "getcol t' c = Inr xs'"
  shows "\<exists>xs. getcol t c = Inr xs \<and> list_all (\<lambda>i. i < length xs) idx \<and> xs' = map ((!) xs) idx"
proof -
  from assms(1) have all: "list_all (\<lambda>(_, xs). list_all (\<lambda>i. i < length xs) idx) t"
    and t': "t' = map (\<lambda>(n, xs). (n, map (\<lambda>i. xs ! i) idx)) t"
    by (auto simp: take_rows_def split: if_splits)
  from assms(2) t' have "map_option (\<lambda>xs. map (\<lambda>i. xs ! i) idx) (map_of t c) = Some xs'"
    by (auto simp: getcol_def map_of_map split: option.splits)
  then obtain xs where xs: "map_of t c = Some xs" "xs' = map ((!) xs) idx" by auto
  from xs(1) have "(c, xs) \<in> set t" by (rule map_of_SomeD)
  with all have "list_all (\<lambda>i. i < length xs) idx" by (auto simp: list_all_iff)
  with xs show ?thesis by (auto simp: getcol_def)
qed

lemma mask_and_Inr:
  "mask_and a b = Inr c \<longleftrightarrow> length a = length b \<and> c = map (\<lambda>(x, y). x \<and> y) (zip a b)"
  by (auto simp: mask_and_def)

lemma mask_and_nth:
  "mask_and a b = Inr c \<Longrightarrow> j < length a \<Longrightarrow> c ! j = (a ! j \<and> b ! j)"
  by (auto simp: mask_and_def split: if_splits)

lemma mask_and_length: "mask_and a b = Inr c \<Longrightarrow> length c = length a \<and> length c = length b"
  by (auto simp: mask_and_def split: if_splits)

lemma final_scat_col:
  assumes "select_rows keep scat = Inr finalscat" "getcol finalscat c = Inr xs'"
  shows "\<exists>xs. getcol scat c = Inr xs \<and> length xs = length keep \<and>
              xs' = map ((!) xs) (mask_select keep [0..<length keep])"
proof -
  from getcol_select_rows [OF assms] obtain xs where
    xs: "getcol scat c = Inr xs" "length xs = length keep" "xs' = mask_select keep xs" by blast
  have "mask_select keep xs = map ((!) xs) (mask_select keep [0..<length xs])"
    by (rule mask_select_nth)
  with xs show ?thesis by auto
qed

lemma final_gaia_col:
  assumes "take_rows idx gaia = Inr matched" "select_rows keep matched = Inr finalgaia"
    "getcol finalgaia c = Inr xs'"
  shows "\<exists>xs. getcol gaia c = Inr xs \<and> length idx = length keep \<and>
              list_all (\<lambda>i. i < length xs) idx \<and>
              xs' = map (\<lambda>j. xs ! (idx ! j)) (mask_select keep [0..<length keep])"
proof -
  from getcol_select_rows [OF assms(2,3)] obtain ys where
    ys: "getcol matched c = Inr ys" "length ys = length keep" "xs' = mask_select keep ys" by blast
  from getcol_take_rows [OF assms(1) ys(1)] obtain xs where
    xs: "getcol gaia c = Inr xs" "list_all (\<lambda>i. i < length xs) idx" "ys = map ((!) xs) idx" by blast
  from ys(2) xs(3) have len: "length idx = length keep" by simp
  have "mask_select keep ys = map ((!) xs) (mask_select keep idx)"
    by (simp add: xs(3) mask_select_map)
  also have "mask_select keep idx = map ((!) idx) (mask_select keep [0..<length idx])"
    by (rule mask_select_nth)
  finally have "xs' = map (\<lambda>j. xs ! (idx ! j)) (mask_select keep [0..<length keep])"
    by (simp add: ys(3) len comp_def)
  with xs len show ?thesis by blast
qed

lemma col_select_map:
  "col_select m (map F K) = Inr ys \<longleftrightarrow> length m = length K \<and> ys = map F (mask_select m K)"
  by (auto simp: col_select_def mask_select_map)

lemma mask_select_subset: "set (mask_select m xs) \<subseteq> set xs"
  by (auto simp: mask_select_def dest: set_zip_rightD)

lemma mask_select_upt: "mask_select m [0..<length m] = filter (\<lambda>j. m ! j) [0..<length m]"
proof -
  have z: "zip m [0..<length m] = map (\<lambda>j. (m ! j, j)) [0..<length m]"
    by (rule nth_equalityI) simp_all
  show ?thesis
    unfolding mask_select_def z by (simp add: filter_map comp_def)
qed

lemma mask_select_filter: "mask_select (map P xs) (map f xs) = map f (filter P xs)"
  by (induction xs) (auto simp: mask_select_def)

lemma mask_select_filter_id: "mask_select (map P xs) xs = filter P xs"
  using mask_select_filter [of P xs id] by simp

lemma finite_values_spec: "finite_values xs = spec_valid_values xs"
  by (induction xs) (auto simp: finite_values_def spec_valid_values_def)

lemma spec_abspm_eq: "cell_add (cell_abs a) (cell_abs b) = spec_abspm a b"
  by (auto simp: cell_add_def cell_abs_def spec_abspm_def split: option.splits)

lemma spec_dediff_eq: "cell_mul (Some 3600) (cell_sub a b) = spec_dediff a b"
  by (auto simp: cell_mul_def cell_sub_def spec_dediff_def split: option.splits)

lemma spec_radiff_eq:
  "cell_mul (cell_mul (Some 3600) (cell_sub a b)) (cos_deg srv d) = spec_radiff (np_cos_deg srv) a b d"
  by (auto simp: cell_mul_def cell_sub_def cos_deg_def spec_radiff_def split: option.splits)

lemma trim_mask_Inr:
  assumes "trim_mask abspm = Inr msk"
  shows "\<exists>lmt. percentile (spec_valid_values abspm) 95 = Inr lmt \<and>
           msk = map (\<lambda>c. case (c, lmt) of (Some v, Some l) \<Rightarrow> v < l | _ \<Rightarrow> False) abspm"
proof -
  from assms obtain lmt where
    p: "percentile (finite_values abspm) 95 = Inr lmt" and
    m: "mask_and (map (\<lambda>c. cell_lt c lmt) abspm) (map (\<lambda>c. c \<noteq> None) abspm) = Inr msk"
    by (auto simp: trim_mask_def bind_Inr)
  from m have "msk = map (\<lambda>c. cell_lt c lmt \<and> c \<noteq> None) abspm"
    by (simp add: mask_and_Inr zip_map_map zip_same_conv_map comp_def)
  also have "\<dots> = map (\<lambda>c. case (c, lmt) of (Some v, Some l) \<Rightarrow> v < l | _ \<Rightarrow> False) abspm"
    by (auto simp: cell_lt_def split: option.splits)
  finally show ?thesis using p by (auto simp: finite_values_spec)
qed

lemma astdiff_rows_char:
  assumes run: "astdiff_rows srv self scat gaia idx separation sample = Inr res"
  shows "\<exists>sra sde gra gde pmra pmde lmt.
     getcol scat (racolumn self) = Inr sra \<and> getcol scat (decolumn self) = Inr sde \<and>
     getcol gaia ''RAJ2000'' = Inr gra \<and> getcol gaia ''DEJ2000'' = Inr gde \<and>
     getcol gaia ''pmRA'' = Inr pmra \<and> getcol gaia ''pmDE'' = Inr pmde \<and>
     length separation = length sample \<and> length idx = length sample \<and>
     percentile (spec_valid_values
         (map (\<lambda>j. spec_abspm (pmra ! (idx ! j)) (pmde ! (idx ! j)))
            (filter (\<lambda>j. separation ! j \<and> sample ! j) [0..<length sample]))) 95 = Inr lmt \<and>
     res = (let rows = spec_below (\<lambda>j. spec_abspm (pmra ! (idx ! j)) (pmde ! (idx ! j))) lmt
                         (filter (\<lambda>j. separation ! j \<and> sample ! j) [0..<length sample])
            in [(''RA'', map (\<lambda>j. sra ! j) rows),
                (''DEC'', map (\<lambda>j. sde ! j) rows),
                (''RAJ2000'', map (\<lambda>j. gra ! (idx ! j)) rows),
                (''DEJ2000'', map (\<lambda>j. gde ! (idx ! j)) rows),
                (''radiff'', map (\<lambda>j. spec_radiff (np_cos_deg srv) (sra ! j) (gra ! (idx ! j))
                                        (gde ! (idx ! j))) rows),
                (''dediff'', map (\<lambda>j. spec_dediff (sde ! j) (gde ! (idx ! j))) rows),
                (''abspm'', map (\<lambda>j. spec_abspm (pmra ! (idx ! j)) (pmde ! (idx ! j))) rows)])"
proof -
  from run obtain keep finalscat matched finalgaia abspm msk dediff radiff where
    k: "mask_and separation sample = Inr keep" and
    fs: "select_rows keep scat = Inr finalscat" and
    mt: "take_rows idx gaia = Inr matched" and
    fg: "select_rows keep matched = Inr finalgaia" and
    ab: "abspm_col finalgaia = Inr abspm" and
    tm: "trim_mask abspm = Inr msk" and
    dd: "dediff_col self finalscat finalgaia msk = Inr dediff" and
    rd: "radiff_col srv self finalscat finalgaia msk = Inr radiff" and
    rt: "results_table self finalscat finalgaia abspm msk radiff dediff = Inr res"
    by (auto simp: astdiff_rows_def bind_Inr)
  define K where "K = mask_select keep [0..<length keep]"
  from k have lk: "length separation = length sample" "length keep = length sample"
    by (auto simp: mask_and_Inr)
  have K_eq: "K = filter (\<lambda>j. separation ! j \<and> sample ! j) [0..<length sample]"
  proof -
    have "K = filter (\<lambda>j. keep ! j) [0..<length keep]"
      unfolding K_def by (rule mask_select_upt)
    also have "\<dots> = filter (\<lambda>j. separation ! j \<and> sample ! j) [0..<length keep]"
      using mask_and_nth [OF k] lk by (intro filter_cong) auto
    finally show ?thesis by (simp add: lk)
  qed
  from ab obtain pmra_f pmde_f where
    p1: "getcol finalgaia ''pmRA'' = Inr pmra_f" and p2: "getcol finalgaia ''pmDE'' = Inr pmde_f" and
    ab': "col_zip cell_add (map cell_abs pmra_f) (map cell_abs pmde_f) = Inr abspm"
    by (auto simp: abspm_col_def bind_Inr)
  from final_gaia_col [OF mt fg p1] obtain pmra where
    pmra: "getcol gaia ''pmRA'' = Inr pmra" "length idx = length keep"
      "pmra_f = map (\<lambda>j. pmra ! (idx ! j)) K" by (auto simp: K_def)
  from final_gaia_col [OF mt fg p2] obtain pmde where
    pmde: "getcol gaia ''pmDE'' = Inr pmde" "pmde_f = map (\<lambda>j. pmde ! (idx ! j)) K"
    by (auto simp: K_def)
  define pm where "pm = (\<lambda>j. spec_abspm (pmra ! (idx ! j)) (pmde ! (idx ! j)))"
  from ab' have abspm: "abspm = map pm K"
    by (simp add: pmra(3) pmde(2) col_zip_map comp_def spec_abspm_eq pm_def)
  from trim_mask_Inr [OF tm] obtain lmt where
    lmt: "percentile (spec_valid_values (map pm K)) 95 = Inr lmt" and
    msk: "msk = map (\<lambda>c. case (c, lmt) of (Some v, Some l) \<Rightarrow> v < l | _ \<Rightarrow> False) (map pm K)"
    by (auto simp: abspm)
  define rows where "rows = spec_below pm lmt K"
  have lm: "length msk = length K" by (simp add: msk)
  have rows_sel: "mask_select msk K = rows"
    unfolding msk rows_def spec_below_def map_map comp_def by (rule mask_select_filter_id)
  from rt obtain sra_f sde_f gra_f gde_f where
    c1: "getcol finalscat (racolumn self) = Inr sra_f" and
    c2: "getcol finalscat (decolumn self) = Inr sde_f" and
    c3: "getcol finalgaia ''RAJ2000'' = Inr gra_f" and
    c4: "getcol finalgaia ''DEJ2000'' = Inr gde_f"
    by (auto simp: results_table_def bind_Inr)
  from final_scat_col [OF fs c1] obtain sra where
    sra: "getcol scat (racolumn self) = Inr sra" "sra_f = map ((!) sra) K" by (auto simp: K_def)
  from final_scat_col [OF fs c2] obtain sde where
    sde: "getcol scat (decolumn self) = Inr sde" "sde_f = map ((!) sde) K" by (auto simp: K_def)
  from final_gaia_col [OF mt fg c3] obtain gra where
    gra: "getcol gaia ''RAJ2000'' = Inr gra" "gra_f = map (\<lambda>j. gra ! (idx ! j)) K"
    by (auto simp: K_def)
  from final_gaia_col [OF mt fg c4] obtain gde where
    gde: "getcol gaia ''DEJ2000'' = Inr gde" "gde_f = map (\<lambda>j. gde ! (idx ! j)) K"
    by (auto simp: K_def)
  have sel: "\<And>F. col_select msk (map F K) = Inr (map F rows)"
    by (simp add: col_select_map lm rows_sel)
  from dd have dediff: "dediff = map (\<lambda>j. spec_dediff (sde ! j) (gde ! (idx ! j))) rows"
    by (simp add: dediff_col_def c2 c4 sde(2) gde(2) sel bind_def col_zip_map comp_def
        spec_dediff_eq)
  from rd have radiff: "radiff = map (\<lambda>j. spec_radiff (np_cos_deg srv) (sra ! j) (gra ! (idx ! j))
                                        (gde ! (idx ! j))) rows"
    by (simp add: radiff_col_def c1 c3 c4 sra(2) gra(2) gde(2) sel bind_def col_zip_map comp_def
        spec_radiff_eq)
  from rt have res: "res = [(''RA'', map (\<lambda>j. sra ! j) rows),
            (''DEC'', map (\<lambda>j. sde ! j) rows),
            (''RAJ2000'', map (\<lambda>j. gra ! (idx ! j)) rows),
            (''DEJ2000'', map (\<lambda>j. gde ! (idx ! j)) rows),
            (''radiff'', radiff), (''dediff'', dediff),
            (''abspm'', map pm rows)]"
    by (simp add: results_table_def c1 c2 c3 c4 sra(2) sde(2) gra(2) gde(2) abspm sel bind_def
        results_frame_def split: if_splits)
  from pmra(2) lk have li: "length idx = length sample" by simp
  show ?thesis
    using sra(1) sde(1) gra(1) gde(1) pmra(1) pmde(1) lk(1) li lmt res
    unfolding dediff radiff rows_def pm_def K_eq Let_def by blast
qed

subsection \<open>Evaluating double arithmetic\<close>

lemma floor_log2:
  assumes "2 powi e \<le> x" "x < 2 powi (e + 1)"
  shows "\<lfloor>log 2 x\<rfloor> = e"
proof -
  have pos: "0 < x" using assms(1) by (smt (verit) zero_less_power_int)
  have p: "2 powr real_of_int k = (2::real) powi k" for k
    by (rule powr_real_of_int') simp_all
  have "2 powr real_of_int e \<le> x \<and> x < 2 powr (real_of_int e + 1)"
    using assms p [of e] p [of "e + 1"] by simp
  with pos show ?thesis
    using floor_log_eq_powr_iff [of x 2 e] by simp
qed

lemma double_round_eval:
  assumes "2 powi e \<le> \<bar>x\<bar>" "\<bar>x\<bar> < 2 powi (e + 1)" "- 1022 \<le> e"
  shows "double_round x = of_int (round_even (x / 2 powi (e - 52))) * 2 powi (e - 52)"
proof -
  have "\<lfloor>log 2 \<bar>x\<bar>\<rfloor> = e" using assms(1,2) by (rule floor_log2)
  with assms(3) have "double_exp x = e - 52" by (simp add: double_exp_def)
  moreover have "x \<noteq> 0" using assms(1) by (smt (verit) zero_less_power_int)
  ultimately show ?thesis by (simp add: double_round_def)
qed

lemma double_of_eval:
  assumes "2 powi e \<le> \<bar>x\<bar>" "\<bar>x\<bar> < 2 powi (e + 1)" "- 1022 \<le> e"
    and "round_even (x / 2 powi (e - 52)) = m"
    and "\<bar>real_of_int m * 2 powi (e - 52)\<bar> < 2 ^ 1024"
  shows "double_of x = Some (of_int m * 2 powi (e - 52))"
  using double_round_eval [OF assms(1,2,3)] assms(4,5) by (simp add: double_of_def)

lemma double_of_0: "double_of 0 = Some 0"
  by (simp add: double_of_def double_round_def)

lemma double_95_100: "double_of (19 / 20) = Some (4278419646001971 / 4503599627370496)"
  using double_of_eval [of "- 1" "19 / 20" 8556839292003942]
  by (simp add: round_even_def)

lemma double_q95: "double_of (4278419646001971 / 4503599627370496) = Some (4278419646001971 / 4503599627370496)"
  using double_of_eval [of "- 1" "4278419646001971 / 4503599627370496" 8556839292003942]
  by (simp add: round_even_def)

lemma double_1: "double_of 1 = Some 1"
  using double_of_eval [of 0 "1" 4503599627370496]
  by (simp add: round_even_def)

lemma double_9: "double_of 9 = Some 9"
  using double_of_eval [of 3 "9" 5066549580791808]
  by (simp add: round_even_def)

lemma double_10: "double_of 10 = Some 10"
  using double_of_eval [of 3 "10" 5629499534213120]
  by (simp add: round_even_def)

lemma double_1_minus_q95: "double_of (225179981368525 / 4503599627370496) = Some (225179981368525 / 4503599627370496)"
  using double_of_eval [of "- 5" "225179981368525 / 4503599627370496" 7205759403792800]
  by (simp add: round_even_def)

lemma double_9_times: "double_of (2026619832316725 / 4503599627370496) = Some (2026619832316725 / 4503599627370496)"
  using double_of_eval [of "- 2" "2026619832316725 / 4503599627370496" 8106479329266900]
  by (simp add: round_even_def)

lemma double_lmt_1_10: "double_of (43009376441388235 / 4503599627370496) = Some (5376172055173529 / 562949953421312)"
  using double_of_eval [of 3 "43009376441388235 / 4503599627370496" 5376172055173529]
  by (simp add: round_even_def)

lemma double_10_001: "double_of (10001 / 1000) = Some (5630062484166541 / 562949953421312)"
  using double_of_eval [of 3 "10001 / 1000" 5630062484166541]
  by (simp add: round_even_def)

lemma double_claim_ra_diff: "double_of (- (562949953421 / 562949953421312)) = Some (- (562949953421 / 562949953421312))"
  using double_of_eval [of "- 10" "- (562949953421 / 562949953421312)" "- 4611686018424832"]
  by (simp add: round_even_def)

lemma double_claim_ra_arcsec: "double_of (- (126663739519725 / 35184372088832)) = Some (- (126663739519725 / 35184372088832))"
  using double_of_eval [of 1 "- (126663739519725 / 35184372088832)" "- 8106479329262400"]
  by (simp add: round_even_def)

lemma double_20: "double_of 20 = Some 20"
  using double_of_eval [of 4 "20" 5629499534213120]
  by (simp add: round_even_def)

lemma double_20_0005: "double_of (40001 / 2000) = Some (5629640271701475 / 281474976710656)"
  using double_of_eval [of 4 "40001 / 2000" 5629640271701475]
  by (simp add: round_even_def)

lemma double_claim_diff: "double_of (- (140737488355 / 281474976710656)) = Some (- (140737488355 / 281474976710656))"
  using double_of_eval [of "- 11" "- (140737488355 / 281474976710656)" "- 4611686018416640"]
  by (simp add: round_even_def)

lemma double_claim_arcsec: "double_of (- (31665934879875 / 17592186044416)) = Some (- (31665934879875 / 17592186044416))"
  using double_of_eval [of 0 "- (31665934879875 / 17592186044416)" "- 8106479329248000"]
  by (simp add: round_even_def)

lemma double_minus_18_10: "double_of (- (9 / 5)) = Some (- (8106479329266893 / 4503599627370496))"
  using double_of_eval [of 0 "- (9 / 5)" "- 8106479329266893"]
  by (simp add: round_even_def)

lemma double_h_100: "double_of (423563544954195129 / 4503599627370496) = Some (6618180389909299 / 70368744177664)"
  using double_of_eval [of 6 "423563544954195129 / 4503599627370496" 6618180389909299]
  by (simp add: round_even_def)

lemma double_g_100: "double_of (3518437208883 / 70368744177664) = Some (3518437208883 / 70368744177664)"
  using double_of_eval [of "- 5" "3518437208883 / 70368744177664" 7205759403792384]
  by (simp add: round_even_def)

lemma double_lmt_100: "double_of (6688549134086963 / 70368744177664) = Some (6688549134086963 / 70368744177664)"
  using double_of_eval [of 6 "6688549134086963 / 70368744177664" 6688549134086963]
  by (simp add: round_even_def)

lemma double_h_20: "double_of (81289973274037449 / 4503599627370496) = Some (5080623329627341 / 281474976710656)"
  using double_of_eval [of 4 "81289973274037449 / 4503599627370496" 5080623329627341]
  by (simp add: round_even_def)

lemma double_g_20: "double_of (14073748835533 / 281474976710656) = Some (14073748835533 / 281474976710656)"
  using double_of_eval [of "- 5" "14073748835533 / 281474976710656" 7205759403792896]
  by (simp add: round_even_def)

lemma double_lmt_20: "double_of (5362098306337997 / 281474976710656) = Some (5362098306337997 / 281474976710656)"
  using double_of_eval [of 4 "5362098306337997 / 281474976710656" 5362098306337997]
  by (simp add: round_even_def)

subsection \<open>A run on the example tile\<close>

lemma ex_sample: "select_sample ex_self ex_scat w =
  (Inr [True, True, True, True, False], w\<lparr>trace := trace w @
     [Log WARNING ''FLAGS column not available. Skipping using flags to object selection'',
      Log WARNING ''CLASS_STAR column not available. Skipping using CLASS_STAR to object selection'',
      Log WARNING ''FWHM column not available. Skipping using FWHM to object selection'',
      Log WARNING ''SN column not available. Skipping using SN to object selection'']\<rparr>)"
  by (simp add: select_sample_def mag_sample_def flags_stage_def clstar_stage_def fwhm_stage_def
      sn_stage_def io_bind_def io_lift_def io_return_def logmsg_def emit_def bind_def getcol_def
      ex_self_def ex_scat_def mask_and_def cell_gt_def cell_lt_def)

lemma ex_percentile:
  "percentile [1, 10] 95 = Inr (Some (5376172055173529 / 562949953421312))"
  by (simp add: percentile_def Let_def lerp_def cell_sub_def cell_mul_def cell_add_def
      double_95_100 double_q95 double_9 double_1_minus_q95 double_9_times double_lmt_1_10)

lemma ex_cos_srv: "np_cos_deg ex_srv = ex_cos"
  by (simp add: ex_srv_def)

lemma ex_rows:
  "astdiff_rows ex_srv ex_self ex_scat ex_gaia ex_idx (separation_mask ex_d2d)
     [True, True, True, True, False] = Inr ex_results"
  by (simp add: astdiff_rows_def separation_mask_def bind_def mask_and_def cell_lt_def select_rows_def
     take_rows_def ex_scat_def ex_gaia_def mask_select_def abspm_col_def getcol_def col_zip_def
     cell_add_def cell_abs_def trim_mask_def finite_values_def ex_percentile dediff_col_def
     radiff_col_def results_table_def results_frame_def nrows_def col_select_def ex_self_def
     cell_sub_def cell_mul_def cos_deg_def ex_cos_srv ex_results_def ex_idx_def ex_d2d_def
     double_1 double_10 double_claim_diff double_claim_arcsec double_claim_ra_diff
      double_claim_ra_arcsec)

lemma ex_centre: "tile_centre ex_fp [''T1''] ''T1'' = Inr (Some 1, Some 20)"
  by (simp add: tile_centre_def ex_fp_def col_select_def mask_select_def bind_def first_elem_def
      valid_latitude_def)

lemma ex_gaia_path: "gaia_cat_path ''w'' ''355'' ''T1'' = ''w/gaia_355/T1.csv''"
  by (simp add: gaia_cat_path_def os_path_join_def startswith_sep_def endswith_sep_def)

lemma ex_survey_path: "survey_cat_path ''w'' [] ''T1'' ''.fits'' = ''w/T1.fits''"
  by (simp add: survey_cat_path_def os_path_join_def startswith_sep_def endswith_sep_def)

lemma ex_load_gaia: "load_gaia ex_srv ex_self ''w'' ''355'' c ''T1'' ex_world =
   (Inr ex_gaia, ex_world\<lparr>trace := [Log INFO ''Reading gaia cat from database'', ReadFile ''w/gaia_355/T1.csv'']\<rparr>)"
  by (simp add: load_gaia_def ex_gaia_path isfile_def ex_world_def io_bind_def logmsg_def emit_def
      ascii_read_csv_def)

lemma ex_load_survey: "files w ''w/T1.fits'' = Some (Fits [[], ex_scat]) \<Longrightarrow>
   load_survey ex_self ''w'' [] ''.fits'' ''T1'' w = (Inr ex_scat, w\<lparr>trace := trace w @ [ReadFile ''w/T1.fits'']\<rparr>)"
  by (simp add: load_survey_def ex_survey_path ex_self_def except_type_error_def fits_open_data_def emit_def)

lemma ex_world_survey: "files ex_world ''w/T1.fits'' = Some (Fits [[], ex_scat])"
  by (simp add: ex_world_def)

lemma ex_splus_coords:
  "sky_coords ex_scat (racolumn ex_self) (decolumn ex_self) =
     Inr [(Some 10, Some 20), (Some (122881 / 4096), Some (327681 / 8192)), (Some 50, Some (- 10)),
          (Some 60, Some 5), (Some (121 / 2), Some 5)]"
  by (simp add: sky_coords_def ex_self_def ex_scat_def getcol_def bind_def valid_latitude_def)

lemma ex_gaia_coords:
  "sky_coords ex_gaia ''RAJ2000'' ''DEJ2000'' =
     Inr [(Some 30, Some 40),
          (Some (5630062484166541 / 562949953421312), Some (5629640271701475 / 281474976710656)),
          (Some 50, Some (- 10)), (Some (30721 / 512), Some 5)]"
  by (simp add: sky_coords_def ex_gaia_def getcol_def bind_def valid_latitude_def)

lemma ex_match: "match_to_catalog_3d ex_srv a b = Inr (ex_idx, ex_d2d)"
  by (simp add: ex_srv_def)

lemma ex_run:
  "process_new_tile ex_srv ex_self ex_fp [''T1''] ''w'' ''355'' [] ''.fits'' (results_dir_of ''w'') ''T1'' ex_world
     = (Inr (), ex_world_after)"
  unfolding process_new_tile_def ex_results_path
  by (simp add: io_bind_def io_lift_def ex_centre ex_load_gaia ex_load_survey ex_world_survey
      ex_splus_coords ex_gaia_coords ex_match ex_sample ex_rows logmsg_def emit_def to_csv_def)
     (simp add: ex_world_def ex_world_after_def)

lemma ex_tile_run:
  "process_tile ex_srv ex_self ex_fp [''T1''] ''w'' ''355'' [] ''.fits'' (results_dir_of ''w'') ''T1''
      ex_world = (Inr (), ex_world_after)"
proof -
  have "\<not> isfile ex_world (path_to_results (results_dir_of ''w'') ''T1'')"
    by (simp add: ex_results_path isfile_def ex_world_def)
  then show ?thesis by (simp add: process_tile_def ex_run)
qed

subsection \<open>What is written for a tile\<close>

lemma process_new_tile_steps:
  assumes "process_new_tile srv self fp field_names wd dr pre suf results_dir tile w = (Inr u, w')"
  shows "\<exists>c gaia scat w1 w2 w3 c1 c2 idx d2d sample res.
     tile_centre fp field_names tile = Inr c \<and>
     load_gaia srv self wd dr c tile w = (Inr gaia, w1) \<and>
     load_survey self wd pre suf tile w1 = (Inr scat, w2) \<and>
     sky_coords scat (racolumn self) (decolumn self) = Inr c1 \<and>
     sky_coords gaia ''RAJ2000'' ''DEJ2000'' = Inr c2 \<and>
     match_to_catalog_3d srv c1 c2 = Inr (idx, d2d) \<and>
     select_sample self scat w2 = (Inr sample, w3) \<and>
     astdiff_rows srv self scat gaia idx (separation_mask d2d) sample = Inr res \<and>
     files w' (path_to_results results_dir tile) = Some (Csv res)"
  using assms unfolding process_new_tile_def
  by (auto simp: io_bind_Inr io_lift_def to_csv_def emit_def split: prod.splits)

lemma separation_mask_nth:
  "j < length d2d \<Longrightarrow> separation_mask d2d ! j = (\<exists>v. d2d ! j = Some v \<and> v < 5)"
  by (auto simp: separation_mask_def cell_lt_def split: option.splits)

lemma separation_mask_length: "length (separation_mask d2d) = length d2d"
  by (simp add: separation_mask_def)

lemma matched_rows:
  assumes "length d2d = length sample"
  shows "filter (\<lambda>j. separation_mask d2d ! j \<and> sample ! j) [0..<length sample] = spec_matched d2d sample"
  unfolding spec_matched_def using assms
  by (intro filter_cong) (auto simp: separation_mask_nth split: option.splits)

lemma written_rows:
  assumes "process_new_tile srv self fp field_names wd dr pre suf results_dir tile w = (Inr u, w')"
  shows "\<exists>c gaia scat w1 w2 w3 c1 c2 idx d2d sample sra sde gra gde pmra pmde lmt.
     tile_centre fp field_names tile = Inr c \<and>
     load_gaia srv self wd dr c tile w = (Inr gaia, w1) \<and>
     load_survey self wd pre suf tile w1 = (Inr scat, w2) \<and>
     sky_coords scat (racolumn self) (decolumn self) = Inr c1 \<and>
     sky_coords gaia ''RAJ2000'' ''DEJ2000'' = Inr c2 \<and>
     match_to_catalog_3d srv c1 c2 = Inr (idx, d2d) \<and>
     select_sample self scat w2 = (Inr sample, w3) \<and>
     getcol scat (racolumn self) = Inr sra \<and> getcol scat (decolumn self) = Inr sde \<and>
     getcol gaia ''RAJ2000'' = Inr gra \<and> getcol gaia ''DEJ2000'' = Inr gde \<and>
     getcol gaia ''pmRA'' = Inr pmra \<and> getcol gaia ''pmDE'' = Inr pmde \<and>
     length d2d = length sample \<and> length idx = length sample \<and>
     percentile (spec_valid_values
         (map (\<lambda>j. spec_abspm (pmra ! (idx ! j)) (pmde ! (idx ! j)))
            (spec_matched d2d sample))) 95 = Inr lmt \<and>
     files w' (path_to_results results_dir tile) = Some (Csv
       (let rows = spec_below (\<lambda>j. spec_abspm (pmra ! (idx ! j)) (pmde ! (idx ! j))) lmt
                     (spec_matched d2d sample)
        in [(''RA'', map (\<lambda>j. sra ! j) rows),
            (''DEC'', map (\<lambda>j. sde ! j) rows),
            (''RAJ2000'', map (\<lambda>j. gra ! (idx ! j)) rows),
            (''DEJ2000'', map (\<lambda>j. gde ! (idx ! j)) rows),
            (''radiff'', map (\<lambda>j. spec_radiff (np_cos_deg srv) (sra ! j) (gra ! (idx ! j))
                                    (gde ! (idx ! j))) rows),
            (''dediff'', map (\<lambda>j. spec_dediff (sde ! j) (gde ! (idx ! j))) rows),
            (''abspm'', map (\<lambda>j. spec_abspm (pmra ! (idx ! j)) (pmde ! (idx ! j))) rows)]))"
proof -
  from process_new_tile_steps [OF assms] obtain c gaia scat w1 w2 w3 c1 c2 idx d2d sample res where
    st: "tile_centre fp field_names tile = Inr c"
      "load_gaia srv self wd dr c tile w = (Inr gaia, w1)"
      "load_survey self wd pre suf tile w1 = (Inr scat, w2)"
      "sky_coords scat (racolumn self) (decolumn self) = Inr c1"
      "sky_coords gaia ''RAJ2000'' ''DEJ2000'' = Inr c2"
      "match_to_catalog_3d srv c1 c2 = Inr (idx, d2d)"
      "select_sample self scat w2 = (Inr sample, w3)" and
    ad: "astdiff_rows srv self scat gaia idx (separation_mask d2d) sample = Inr res" and
    fl: "files w' (path_to_results results_dir tile) = Some (Csv res)"
    by blast
  from astdiff_rows_char [OF ad] obtain sra sde gra gde pmra pmde lmt where
    cols: "getcol scat (racolumn self) = Inr sra" "getcol scat (decolumn self) = Inr sde"
      "getcol gaia ''RAJ2000'' = Inr gra" "getcol gaia ''DEJ2000'' = Inr gde"
      "getcol gaia ''pmRA'' = Inr pmra" "getcol gaia ''pmDE'' = Inr pmde" and
    len: "length (separation_mask d2d) = length sample" "length idx = length sample" and
    pc: "percentile (spec_valid_values
         (map (\<lambda>j. spec_abspm (pmra ! (idx ! j)) (pmde ! (idx ! j)))
            (filter (\<lambda>j. separation_mask d2d ! j \<and> sample ! j) [0..<length sample]))) 95 = Inr lmt" and
    res: "res = (let rows = spec_below (\<lambda>j. spec_abspm (pmra ! (idx ! j)) (pmde ! (idx ! j))) lmt
                         (filter (\<lambda>j. separation_mask d2d ! j \<and> sample ! j) [0..<length sample])
            in [(''RA'', map (\<lambda>j. sra ! j) rows),
                (''DEC'', map (\<lambda>j. sde ! j) rows),
                (''RAJ2000'', map (\<lambda>j. gra ! (idx ! j)) rows),
                (''DEJ2000'', map (\<lambda>j. gde ! (idx ! j)) rows),
                (''radiff'', map (\<lambda>j. spec_radiff (np_cos_deg srv) (sra ! j) (gra ! (idx ! j))
                                        (gde ! (idx ! j))) rows),
                (''dediff'', map (\<lambda>j. spec_dediff (sde ! j) (gde ! (idx ! j))) rows),
                (''abspm'', map (\<lambda>j. spec_abspm (pmra ! (idx ! j)) (pmde ! (idx ! j))) rows)])"
    by blast
  from len have l: "length d2d = length sample" by (simp add: separation_mask_length)
  note m = matched_rows [OF l]
  from st cols l len(2) pc [unfolded m] fl [unfolded res m]
  show ?thesis by blast
qed

subsection \<open>The differences that are written\<close>

text \<open>
  Claim C1. When the work on a tile ends normally, the rows of the file written for the
  tile are the survey rows that are matched within 5 arcsec, pass the quality selection
  and have a valid summed proper motion strictly below the 95th percentile of the valid
  ones, in order; the row for survey row \<open>j\<close> holds the survey position, the position
  of the reference row \<open>idx ! j\<close> that the matcher gave for it, and the two
  differences: \<open>3600 * (survey Dec - reference Dec)\<close> and
  \<open>3600 * (survey RA - reference RA) * cos (reference Dec)\<close>, every operation
  rounded to a double and the cosine being the library's. For the survey declination
  20.0 and the reference declination 20.0005, as doubles, the Dec difference is
  -1.799999999995805 arcsec.
\<close>

theorem C1_differences_written:
  "(process_new_tile srv self fp field_names wd dr pre suf results_dir tile w = (Inr u, w') \<longrightarrow>
     (\<exists>c gaia scat w1 w2 w3 c1 c2 idx d2d sample sra sde gra gde pmra pmde lmt.
        tile_centre fp field_names tile = Inr c \<and>
        load_gaia srv self wd dr c tile w = (Inr gaia, w1) \<and>
        load_survey self wd pre suf tile w1 = (Inr scat, w2) \<and>
        sky_coords scat (racolumn self) (decolumn self) = Inr c1 \<and>
        sky_coords gaia ''RAJ2000'' ''DEJ2000'' = Inr c2 \<and>
        match_to_catalog_3d srv c1 c2 = Inr (idx, d2d) \<and>
        select_sample self scat w2 = (Inr sample, w3) \<and>
        getcol scat (racolumn self) = Inr sra \<and> getcol scat (decolumn self) = Inr sde \<and>
        getcol gaia ''RAJ2000'' = Inr gra \<and> getcol gaia ''DEJ2000'' = Inr gde \<and>
        getcol gaia ''pmRA'' = Inr pmra \<and> getcol gaia ''pmDE'' = Inr pmde \<and>
        percentile (spec_valid_values
            (map (\<lambda>j. spec_abspm (pmra ! (idx ! j)) (pmde ! (idx ! j)))
               (spec_matched d2d sample))) 95 = Inr lmt \<and>
        files w' (path_to_results results_dir tile) = Some (Csv
          (let rows = spec_below (\<lambda>j. spec_abspm (pmra ! (idx ! j)) (pmde ! (idx ! j))) lmt
                        (spec_matched d2d sample)
           in [(''RA'', map (\<lambda>j. sra ! j) rows),
               (''DEC'', map (\<lambda>j. sde ! j) rows),
               (''RAJ2000'', map (\<lambda>j. gra ! (idx ! j)) rows),
               (''DEJ2000'', map (\<lambda>j. gde ! (idx ! j)) rows),
               (''radiff'', map (\<lambda>j. spec_radiff (np_cos_deg srv) (sra ! j) (gra ! (idx ! j))
                                       (gde ! (idx ! j))) rows),
               (''dediff'', map (\<lambda>j. spec_dediff (sde ! j) (gde ! (idx ! j))) rows),
               (''abspm'', map (\<lambda>j. spec_abspm (pmra ! (idx ! j)) (pmde ! (idx ! j))) rows)]))))
   \<and> dediff_col self [(decolumn self, [double_of 20])]
        [(''DEJ2000'', [double_of (200005 / 10000)])] [True]
       = Inr [Some (- (31665934879875 / 17592186044416))]"
proof (intro conjI impI)
  assume "process_new_tile srv self fp field_names wd dr pre suf results_dir tile w = (Inr u, w')"
  from written_rows [OF this]
  show "\<exists>c gaia scat w1 w2 w3 c1 c2 idx d2d sample sra sde gra gde pmra pmde lmt.
        tile_centre fp field_names tile = Inr c \<and>
        load_gaia srv self wd dr c tile w = (Inr gaia, w1) \<and>
        load_survey self wd pre suf tile w1 = (Inr scat, w2) \<and>
        sky_coords scat (racolumn self) (decolumn self) = Inr c1 \<and>
        sky_coords gaia ''RAJ2000'' ''DEJ2000'' = Inr c2 \<and>
        match_to_catalog_3d srv c1 c2 = Inr (idx, d2d) \<and>
        select_sample self scat w2 = (Inr sample, w3) \<and>
        getcol scat (racolumn self) = Inr sra \<and> getcol scat (decolumn self) = Inr sde \<and>
        getcol gaia ''RAJ2000'' = Inr gra \<and> getcol gaia ''DEJ2000'' = Inr gde \<and>
        getcol gaia ''pmRA'' = Inr pmra \<and> getcol gaia ''pmDE'' = Inr pmde \<and>
        percentile (spec_valid_values
            (map (\<lambda>j. spec_abspm (pmra ! (idx ! j)) (pmde ! (idx ! j)))
               (spec_matched d2d sample))) 95 = Inr lmt \<and>
        files w' (path_to_results results_dir tile) = Some (Csv
          (let rows = spec_below (\<lambda>j. spec_abspm (pmra ! (idx ! j)) (pmde ! (idx ! j))) lmt
                        (spec_matched d2d sample)
           in [(''RA'', map (\<lambda>j. sra ! j) rows),
               (''DEC'', map (\<lambda>j. sde ! j) rows),
               (''RAJ2000'', map (\<lambda>j. gra ! (idx ! j)) rows),
               (''DEJ2000'', map (\<lambda>j. gde ! (idx ! j)) rows),
               (''radiff'', map (\<lambda>j. spec_radiff (np_cos_deg srv) (sra ! j) (gra ! (idx ! j))
                                       (gde ! (idx ! j))) rows),
               (''dediff'', map (\<lambda>j. spec_dediff (sde ! j) (gde ! (idx ! j))) rows),
               (''abspm'', map (\<lambda>j. spec_abspm (pmra ! (idx ! j)) (pmde ! (idx ! j))) rows)]))"
    by blast
next
  show "dediff_col self [(decolumn self, [double_of 20])]
        [(''DEJ2000'', [double_of (200005 / 10000)])] [True]
       = Inr [Some (- (31665934879875 / 17592186044416))]"
    by (simp add: dediff_col_def getcol_def bind_def col_select_def mask_select_def col_zip_def
        cell_sub_def cell_mul_def double_20 double_20_0005 double_claim_diff double_claim_arcsec)
qed

theorem C1_differences_written_witness:
  "process_new_tile ex_srv ex_self ex_fp [''T1''] ''w'' ''355'' [] ''.fits'' (results_dir_of ''w'') ''T1''
      ex_world = (Inr (), ex_world_after) \<and>
   (\<exists>c gaia scat w1 w2 w3 c1 c2 idx d2d sample sra sde gra gde pmra pmde lmt.
        tile_centre ex_fp [''T1''] ''T1'' = Inr c \<and>
        load_gaia ex_srv ex_self ''w'' ''355'' c ''T1'' ex_world = (Inr gaia, w1) \<and>
        load_survey ex_self ''w'' [] ''.fits'' ''T1'' w1 = (Inr scat, w2) \<and>
        sky_coords scat (racolumn ex_self) (decolumn ex_self) = Inr c1 \<and>
        sky_coords gaia ''RAJ2000'' ''DEJ2000'' = Inr c2 \<and>
        match_to_catalog_3d ex_srv c1 c2 = Inr (idx, d2d) \<and>
        select_sample ex_self scat w2 = (Inr sample, w3) \<and>
        getcol scat (racolumn ex_self) = Inr sra \<and> getcol scat (decolumn ex_self) = Inr sde \<and>
        getcol gaia ''RAJ2000'' = Inr gra \<and> getcol gaia ''DEJ2000'' = Inr gde \<and>
        getcol gaia ''pmRA'' = Inr pmra \<and> getcol gaia ''pmDE'' = Inr pmde \<and>
        percentile (spec_valid_values
            (map (\<lambda>j. spec_abspm (pmra ! (idx ! j)) (pmde ! (idx ! j)))
               (spec_matched d2d sample))) 95 = Inr lmt \<and>
        files ex_world_after (path_to_results (results_dir_of ''w'') ''T1'') = Some (Csv
          (let rows = spec_below (\<lambda>j. spec_abspm (pmra ! (idx ! j)) (pmde ! (idx ! j))) lmt
                        (spec_matched d2d sample)
           in [(''RA'', map (\<lambda>j. sra ! j) rows),
               (''DEC'', map (\<lambda>j. sde ! j) rows),
               (''RAJ2000'', map (\<lambda>j. gra ! (idx ! j)) rows),
               (''DEJ2000'', map (\<lambda>j. gde ! (idx ! j)) rows),
               (''radiff'', map (\<lambda>j. spec_radiff (np_cos_deg ex_srv) (sra ! j) (gra ! (idx ! j))
                                       (gde ! (idx ! j))) rows),
               (''dediff'', map (\<lambda>j. spec_dediff (sde ! j) (gde ! (idx ! j))) rows),
               (''abspm'', map (\<lambda>j. spec_abspm (pmra ! (idx ! j)) (pmde ! (idx ! j))) rows)]))) \<and>
   files ex_world_after (path_to_results (results_dir_of ''w'') ''T1'') = Some (Csv ex_results) \<and>
   getcol ex_results ''dediff'' = Inr [Some (- (31665934879875 / 17592186044416))] \<and>
   spec_matched ex_d2d [True, True, True, True, False] = [0, 1, 2] \<and>
   spec_below (\<lambda>j. spec_abspm ([Some (- 4), Some (1 / 2), None, Some 2] ! (ex_idx ! j))
                                ([Some 6, Some (- (1 / 2)), Some 1, Some 3] ! (ex_idx ! j)))
      (Some (5376172055173529 / 562949953421312)) [0, 1, 2] = [0]"
proof (intro conjI)
  show "process_new_tile ex_srv ex_self ex_fp [''T1''] ''w'' ''355'' [] ''.fits'' (results_dir_of ''w'') ''T1''
      ex_world = (Inr (), ex_world_after)" by (rule ex_run)
  from C1_differences_written [of ex_srv ex_self ex_fp "[''T1'']" "''w''" "''355''" "[]" "''.fits''"
      "results_dir_of ''w''" "''T1''" ex_world "()" ex_world_after] ex_run
  show "\<exists>c gaia scat w1 w2 w3 c1 c2 idx d2d sample sra sde gra gde pmra pmde lmt.
        tile_centre ex_fp [''T1''] ''T1'' = Inr c \<and>
        load_gaia ex_srv ex_self ''w'' ''355'' c ''T1'' ex_world = (Inr gaia, w1) \<and>
        load_survey ex_self ''w'' [] ''.fits'' ''T1'' w1 = (Inr scat, w2) \<and>
        sky_coords scat (racolumn ex_self) (decolumn ex_self) = Inr c1 \<and>
        sky_coords gaia ''RAJ2000'' ''DEJ2000'' = Inr c2 \<and>
        match_to_catalog_3d ex_srv c1 c2 = Inr (idx, d2d) \<and>
        select_sample ex_self scat w2 = (Inr sample, w3) \<and>
        getcol scat (racolumn ex_self) = Inr sra \<and> getcol scat (decolumn ex_self) = Inr sde \<and>
        getcol gaia ''RAJ2000'' = Inr gra \<and> getcol gaia ''DEJ2000'' = Inr gde \<and>
        getcol gaia ''pmRA'' = Inr pmra \<and> getcol gaia ''pmDE'' = Inr pmde \<and>
        percentile (spec_valid_values
            (map (\<lambda>j. spec_abspm (pmra ! (idx ! j)) (pmde ! (idx ! j)))
               (spec_matched d2d sample))) 95 = Inr lmt \<and>
        files ex_world_after (path_to_results (results_dir_of ''w'') ''T1'') = Some (Csv
          (let rows = spec_below (\<lambda>j. spec_abspm (pmra ! (idx ! j)) (pmde ! (idx ! j))) lmt
                        (spec_matched d2d sample)
           in [(''RA'', map (\<lambda>j. sra ! j) rows),
               (''DEC'', map (\<lambda>j. sde ! j) rows),
               (''RAJ2000'', map (\<lambda>j. gra ! (idx ! j)) rows),
               (''DEJ2000'', map (\<lambda>j. gde ! (idx ! j)) rows),
               (''radiff'', map (\<lambda>j. spec_radiff (np_cos_deg ex_srv) (sra ! j) (gra ! (idx ! j))
                                       (gde ! (idx ! j))) rows),
               (''dediff'', map (\<lambda>j. spec_dediff (sde ! j) (gde ! (idx ! j))) rows),
               (''abspm'', map (\<lambda>j. spec_abspm (pmra ! (idx ! j)) (pmde ! (idx ! j))) rows)]))"
    by blast
  show "files ex_world_after (path_to_results (results_dir_of ''w'') ''T1'') = Some (Csv ex_results)"
    by (simp add: ex_results_path ex_world_after_def)
  show "getcol ex_results ''dediff'' = Inr [Some (- (31665934879875 / 17592186044416))]"
    by (simp add: getcol_def ex_results_def)
  show "spec_matched ex_d2d [True, True, True, True, False] = [0, 1, 2]"
    by (simp add: spec_matched_def ex_d2d_def upt_rec [of 0] upt_rec [of 1] upt_rec [of 2]
        upt_rec [of 3] upt_rec [of 4] upt_rec [of 5])
  show "spec_below (\<lambda>j. spec_abspm ([Some (- 4), Some (1 / 2), None, Some 2] ! (ex_idx ! j))
                                ([Some 6, Some (- (1 / 2)), Some 1, Some 3] ! (ex_idx ! j)))
      (Some (5376172055173529 / 562949953421312)) [0, 1, 2] = [0]"
    by (simp add: spec_below_def spec_abspm_def ex_idx_def double_1 double_10)
qed

text \<open>
  The pair of claim C1 in a whole run. The first survey row of the example tile is at
  (10.0, 20.0) and its reference row at the doubles nearest to (10.001, 20.0005); the
  Dec difference written for the pair is \<open>- 31665934879875 / 2 ^ 44\<close>, which is
  -1.799999999995805: it is not \<open>- 1.8\<close>, and not the double nearest to \<open>- 1.8\<close>
  either.
\<close>

theorem C1_dec_difference_not_exact:
  "process_new_tile ex_srv ex_self ex_fp [''T1''] ''w'' ''355'' [] ''.fits'' (results_dir_of ''w'') ''T1''
      ex_world = (Inr (), ex_world_after) \<and>
   files ex_world_after (path_to_results (results_dir_of ''w'') ''T1'') = Some (Csv ex_results) \<and>
   getcol ex_results ''DEC'' = Inr [double_of 20] \<and>
   getcol ex_results ''DEJ2000'' = Inr [double_of (200005 / 10000)] \<and>
   getcol ex_results ''RA'' = Inr [double_of 10] \<and>
   getcol ex_results ''RAJ2000'' = Inr [double_of (10001 / 1000)] \<and>
   getcol ex_results ''dediff'' = Inr [Some (- (31665934879875 / 17592186044416))] \<and>
   getcol ex_results ''dediff'' \<noteq> Inr [Some (- (18 / 10))] \<and>
   getcol ex_results ''dediff'' \<noteq> Inr [double_of (- (18 / 10))]"
  by (simp add: ex_run ex_results_path ex_world_after_def getcol_def ex_results_def double_20
      double_10 double_20_0005 double_10_001 double_minus_18_10)

subsection \<open>The example tile, run twice\<close>

theorem C10_result_path_keyed_by_tile_witness:
  "\<not> startswith_sep ''T1'' \<and> ''w'' \<noteq> [] \<and> \<not> endswith_sep ''w'' \<and>
   path_to_results (results_dir_of ''w'') ''T1'' = ''w'' @ ''/results/'' @ ''T1'' @ ''_mar-gaiaDR3_diff.csv'' \<and>
   ''T1'' \<noteq> ''fakename'' \<and>
   process_tile ex_srv ex_self ex_fp [''T1''] ''w'' ''355'' [] ''.fits'' (results_dir_of ''w'') ''T1''
      ex_world = (Inr (), ex_world_after) \<and>
   process_tile ex_srv_down (ex_self\<lparr>gaia_dr := ''345''\<rparr>) ex_fp [''T1''] ''w'' ''345'' [] ''.fits''
      (results_dir_of ''w'') ''T1'' ex_world_after =
     (Inr (), ex_world_after\<lparr>trace := trace ex_world_after @
        [Log INFO (''Catalogue for tile '' @ ''T1'' @ '' already exists. Skipping'')]\<rparr>)"
proof -
  have a: "\<not> startswith_sep ''T1'' \<and> ''w'' \<noteq> [] \<and> \<not> endswith_sep ''w''"
    by (simp add: startswith_sep_def endswith_sep_def)
  have b: "''T1'' \<noteq> ''fakename'' \<and>
     process_tile ex_srv ex_self ex_fp [''T1''] ''w'' ''355'' [] ''.fits'' (results_dir_of ''w'') ''T1''
       ex_world = (Inr (), ex_world_after)"
    by (simp add: ex_tile_run)
  note th = C10_result_path_keyed_by_tile [of "''T1''" "''w''" ex_srv ex_self ex_fp "[''T1'']"
      "''355''" "[]" "''.fits''" ex_world ex_world_after]
  from th a have p: "path_to_results (results_dir_of ''w'') ''T1'' =
      ''w'' @ ''/results/'' @ ''T1'' @ ''_mar-gaiaDR3_diff.csv''" by blast
  from th b have q: "process_tile ex_srv_down (ex_self\<lparr>gaia_dr := ''345''\<rparr>) ex_fp [''T1''] ''w'' ''345''
      [] ''.fits'' (results_dir_of ''w'') ''T1'' ex_world_after =
     (Inr (), ex_world_after\<lparr>trace := trace ex_world_after @
        [Log INFO (''Catalogue for tile '' @ ''T1'' @ '' already exists. Skipping'')]\<rparr>)" by blast
  from a b p q show ?thesis by blast
qed

subsection \<open>The quality selection\<close>

lemma wf_table_col:
  assumes "wf_table t" "map_of t c = Some xs"
  shows "length xs = nrows t"
proof -
  from assms(2) have "(c, xs) \<in> set t" by (rule map_of_SomeD)
  with assms(1) show ?thesis by (auto simp: wf_table_def list_all_iff)
qed

lemma stage_and:
  assumes "length xs = n"
  shows "mask_and (map P [0..<n]) (map Q xs) = Inr (map (\<lambda>i. P i \<and> Q (xs ! i)) [0..<n])"
  using assms by (auto simp: mask_and_def intro!: nth_equalityI)

lemma map_nth_upt: "length xs = n \<Longrightarrow> map Q xs = map (\<lambda>i. Q (xs ! i)) [0..<n]"
  by (auto intro!: nth_equalityI)

lemma cell_lt_Some: "cell_lt c (Some y) = (case c of None \<Rightarrow> False | Some x \<Rightarrow> x < y)"
  by (simp add: cell_lt_def split: option.splits)

lemma cell_gt_Some: "cell_gt c (Some y) = (case c of None \<Rightarrow> False | Some x \<Rightarrow> y < x)"
  by (simp add: cell_gt_def cell_lt_def split: option.splits)

lemma cell_eq_Some: "cell_eq c (Some y) = (case c of None \<Rightarrow> False | Some x \<Rightarrow> x = y)"
  by (simp add: cell_eq_def split: option.splits)

lemma mag_sample_spec:
  assumes "wf_table scat" "map_of scat (mag_column self) = Some m"
  shows "mag_sample self scat =
     Inr (map (\<lambda>i. spec_cond (Some (mag_column self)) scat i (\<lambda>x. 14 < x \<and> x < 19)) [0..<nrows scat])"
proof -
  have len: "length m = nrows scat" using assms by (rule wf_table_col)
  have "mask_and (map (\<lambda>c. cell_gt c (Some 14)) m) (map (\<lambda>c. cell_lt c (Some 19)) m)
      = Inr (map (\<lambda>i. cell_gt (m ! i) (Some 14) \<and> cell_lt (m ! i) (Some 19)) [0..<nrows scat])"
    unfolding map_nth_upt [OF len, of "\<lambda>c. cell_gt c (Some 14)"] by (rule stage_and [OF len])
  then show ?thesis using assms(2)
    by (simp add: mag_sample_def getcol_def bind_def spec_cond_def cell_lt_Some cell_gt_Some
        split: option.splits cong: map_cong)
qed

lemma col_stage:
  assumes "wf_table scat" "map_of scat c = Some xs"
  shows "bind (getcol scat c) (\<lambda>f. mask_and (map P [0..<nrows scat]) (map Q f)) =
           Inr (map (\<lambda>i. P i \<and> Q (xs ! i)) [0..<nrows scat])"
proof -
  have len: "length xs = nrows scat" using assms by (rule wf_table_col)
  from stage_and [OF len] assms(2) show ?thesis by (simp add: getcol_def bind_def)
qed

lemma flags_stage_spec:
  assumes "wf_table scat" "has_col scat (flags_column self)"
  shows "\<exists>w'. flags_stage self scat (map P [0..<nrows scat]) w =
     (Inr (map (\<lambda>i. P i \<and> spec_cond (flags_column self) scat i (\<lambda>x. x = 0)) [0..<nrows scat]), w')"
proof (cases "flags_column self")
  case None
  then show ?thesis
    by (simp add: flags_stage_def io_bind_def logmsg_def io_return_def spec_cond_def)
next
  case (Some c)
  with assms(2) obtain xs where xs: "map_of scat c = Some xs" by (auto simp: has_col_def)
  show ?thesis
    by (simp add: flags_stage_def Some io_lift_def col_stage [OF assms(1) xs] spec_cond_def xs
        cell_eq_Some)
qed

lemma clstar_stage_spec:
  assumes "wf_table scat" "has_col scat (clstar_column self)"
  shows "\<exists>w'. clstar_stage self scat (map P [0..<nrows scat]) w =
     (Inr (map (\<lambda>i. P i \<and> spec_cond (clstar_column self) scat i (\<lambda>x. 95 / 100 < x)) [0..<nrows scat]), w')"
proof (cases "clstar_column self")
  case None
  then show ?thesis
    by (simp add: clstar_stage_def io_bind_def logmsg_def io_return_def spec_cond_def)
next
  case (Some c)
  with assms(2) obtain xs where xs: "map_of scat c = Some xs" by (auto simp: has_col_def)
  show ?thesis
    by (simp only: clstar_stage_def Some col_stage [OF assms(1) xs] spec_cond_def xs cell_gt_Some
        option.case) blast
qed

lemma fwhm_stage_spec:
  assumes "wf_table scat" "has_col scat (fwhm_column self)"
  shows "\<exists>w'. fwhm_stage self scat (map P [0..<nrows scat]) w =
     (Inr (map (\<lambda>i. P i \<and> spec_cond (fwhm_column self) scat i (\<lambda>x. case double_of (x * 3600) of Some y \<Rightarrow> y < 25 / 10 | None \<Rightarrow> x < 0)) [0..<nrows scat]), w')"
proof (cases "fwhm_column self")
  case None
  then show ?thesis
    by (simp add: fwhm_stage_def io_bind_def logmsg_def io_return_def spec_cond_def)
next
  case (Some c)
  with assms(2) obtain xs where xs: "map_of scat c = Some xs" by (auto simp: has_col_def)
  have "\<And>x. cell_mul_lt x 3600 (25 / 10) =
          (case x of None \<Rightarrow> False
           | Some v \<Rightarrow> (case double_of (v * 3600) of Some y \<Rightarrow> y < 25 / 10 | None \<Rightarrow> v < 0))"
    by (simp add: cell_mul_lt_def mult_less_0_iff split: option.splits)
  then show ?thesis
    by (simp only: fwhm_stage_def Some io_lift_def col_stage [OF assms(1) xs] spec_cond_def xs
        option.case) blast
qed

lemma sn_stage_spec:
  assumes "wf_table scat" "has_col scat (sn_column self)"
  shows "\<exists>w'. sn_stage self scat (map P [0..<nrows scat]) w =
     (Inr (map (\<lambda>i. P i \<and> spec_cond (sn_column self) scat i (\<lambda>x. sn_limit self < x)) [0..<nrows scat]), w')"
proof (cases "sn_column self")
  case None
  then show ?thesis
    by (simp add: sn_stage_def io_bind_def logmsg_def io_return_def spec_cond_def)
next
  case (Some c)
  with assms(2) obtain xs where xs: "map_of scat c = Some xs" by (auto simp: has_col_def)
  show ?thesis
    by (simp add: sn_stage_def Some io_lift_def col_stage [OF assms(1) xs] spec_cond_def xs
        cell_gt_Some)
qed

lemma io_bind_step: "m w = (Inr x, w') \<Longrightarrow> io_bind m f w = f x w'"
  by (simp add: io_bind_def)

lemma select_sample_spec:
  assumes wf: "wf_table scat" and cp: "columns_present self scat"
  shows "\<exists>w'. select_sample self scat w = (Inr (map (spec_quality self scat) [0..<nrows scat]), w')"
proof -
  from cp obtain m where m: "map_of scat (mag_column self) = Some m"
    by (auto simp: columns_present_def has_col_def)
  from cp have h: "has_col scat (flags_column self)" "has_col scat (clstar_column self)"
    "has_col scat (fwhm_column self)" "has_col scat (sn_column self)"
    by (auto simp: columns_present_def)
  have s0: "io_lift (mag_sample self scat) w =
     (Inr (map (\<lambda>i. spec_cond (Some (mag_column self)) scat i (\<lambda>x. 14 < x \<and> x < 19)) [0..<nrows scat]), w)"
    by (simp add: io_lift_def mag_sample_spec [OF wf m])
  from flags_stage_spec [OF wf h(1)] obtain w1 where
    s1: "flags_stage self scat
           (map (\<lambda>i. spec_cond (Some (mag_column self)) scat i (\<lambda>x. 14 < x \<and> x < 19)) [0..<nrows scat]) w
         = (Inr (map (\<lambda>i. spec_cond (Some (mag_column self)) scat i (\<lambda>x. 14 < x \<and> x < 19) \<and>
                        spec_cond (flags_column self) scat i (\<lambda>x. x = 0)) [0..<nrows scat]), w1)"
    by blast
  from clstar_stage_spec [OF wf h(2)] obtain w2 where
    s2: "clstar_stage self scat
           (map (\<lambda>i. spec_cond (Some (mag_column self)) scat i (\<lambda>x. 14 < x \<and> x < 19) \<and>
                        spec_cond (flags_column self) scat i (\<lambda>x. x = 0)) [0..<nrows scat]) w1
         = (Inr (map (\<lambda>i. (spec_cond (Some (mag_column self)) scat i (\<lambda>x. 14 < x \<and> x < 19) \<and>
                        spec_cond (flags_column self) scat i (\<lambda>x. x = 0)) \<and>
                        spec_cond (clstar_column self) scat i (\<lambda>x. 95 / 100 < x)) [0..<nrows scat]), w2)"
    by blast
  from fwhm_stage_spec [OF wf h(3)] obtain w3 where
    s3: "fwhm_stage self scat
           (map (\<lambda>i. (spec_cond (Some (mag_column self)) scat i (\<lambda>x. 14 < x \<and> x < 19) \<and>
                        spec_cond (flags_column self) scat i (\<lambda>x. x = 0)) \<and>
                        spec_cond (clstar_column self) scat i (\<lambda>x. 95 / 100 < x)) [0..<nrows scat]) w2
         = (Inr (map (\<lambda>i. ((spec_cond (Some (mag_column self)) scat i (\<lambda>x. 14 < x \<and> x < 19) \<and>
                        spec_cond (flags_column self) scat i (\<lambda>x. x = 0)) \<and>
                        spec_cond (clstar_column self) scat i (\<lambda>x. 95 / 100 < x)) \<and>
                        spec_cond (fwhm_column self) scat i (\<lambda>x. case double_of (x * 3600) of Some y \<Rightarrow> y < 25 / 10 | None \<Rightarrow> x < 0)) [0..<nrows scat]), w3)"
    by blast
  from sn_stage_spec [OF wf h(4)] obtain w4 where
    s4: "sn_stage self scat
           (map (\<lambda>i. ((spec_cond (Some (mag_column self)) scat i (\<lambda>x. 14 < x \<and> x < 19) \<and>
                        spec_cond (flags_column self) scat i (\<lambda>x. x = 0)) \<and>
                        spec_cond (clstar_column self) scat i (\<lambda>x. 95 / 100 < x)) \<and>
                        spec_cond (fwhm_column self) scat i (\<lambda>x. case double_of (x * 3600) of Some y \<Rightarrow> y < 25 / 10 | None \<Rightarrow> x < 0)) [0..<nrows scat]) w3
         = (Inr (map (\<lambda>i. (((spec_cond (Some (mag_column self)) scat i (\<lambda>x. 14 < x \<and> x < 19) \<and>
                        spec_cond (flags_column self) scat i (\<lambda>x. x = 0)) \<and>
                        spec_cond (clstar_column self) scat i (\<lambda>x. 95 / 100 < x)) \<and>
                        spec_cond (fwhm_column self) scat i (\<lambda>x. case double_of (x * 3600) of Some y \<Rightarrow> y < 25 / 10 | None \<Rightarrow> x < 0)) \<and>
                        spec_cond (sn_column self) scat i (\<lambda>x. sn_limit self < x)) [0..<nrows scat]), w4)"
    by blast
  have "select_sample self scat w =
     (Inr (map (\<lambda>i. (((spec_cond (Some (mag_column self)) scat i (\<lambda>x. 14 < x \<and> x < 19) \<and>
                        spec_cond (flags_column self) scat i (\<lambda>x. x = 0)) \<and>
                        spec_cond (clstar_column self) scat i (\<lambda>x. 95 / 100 < x)) \<and>
                        spec_cond (fwhm_column self) scat i (\<lambda>x. case double_of (x * 3600) of Some y \<Rightarrow> y < 25 / 10 | None \<Rightarrow> x < 0)) \<and>
                        spec_cond (sn_column self) scat i (\<lambda>x. sn_limit self < x)) [0..<nrows scat]), w4)"
    unfolding select_sample_def
    by (simp only: io_bind_def s0 s1 s2 s3 s4 prod.case sum.case)
  moreover have "(\<lambda>i. (((spec_cond (Some (mag_column self)) scat i (\<lambda>x. 14 < x \<and> x < 19) \<and>
                        spec_cond (flags_column self) scat i (\<lambda>x. x = 0)) \<and>
                        spec_cond (clstar_column self) scat i (\<lambda>x. 95 / 100 < x)) \<and>
                        spec_cond (fwhm_column self) scat i (\<lambda>x. case double_of (x * 3600) of Some y \<Rightarrow> y < 25 / 10 | None \<Rightarrow> x < 0)) \<and>
                        spec_cond (sn_column self) scat i (\<lambda>x. sn_limit self < x))
                 = spec_quality self scat"
    by (auto simp: spec_quality_def fun_eq_iff)
  ultimately show ?thesis by simp
qed

text \<open>
  Claim C3. On a survey table whose columns have one length and include the configured
  ones, the quality selection keeps row \<open>i\<close> exactly when \<open>spec_quality\<close> holds:
  the magnitude is above 14 and below 19, and for each configured optional column its
  condition holds (flags equal to 0, class-star above 0.95, FWHM times 3600 below 2.5,
  signal-to-noise above the limit); an optional column that is not configured puts no
  condition. With no optional column configured, a row of magnitude 18.5 whose flags
  value is 1 is kept.
\<close>

theorem C3_quality_selection:
  "(wf_table scat \<and> columns_present self scat \<longrightarrow>
      fst (select_sample self scat w) = Inr (map (spec_quality self scat) [0..<nrows scat]))
   \<and> (flags_column self = None \<and> clstar_column self = None \<and> fwhm_column self = None \<and>
        sn_column self = None \<longrightarrow>
      fst (select_sample self [(mag_column self, [Some (185 / 10)]), (''FLAGS'', [Some 1])] w) =
        Inr [True])"
proof (intro conjI impI)
  assume "wf_table scat \<and> columns_present self scat"
  then obtain w' where
    "select_sample self scat w = (Inr (map (spec_quality self scat) [0..<nrows scat]), w')"
    using select_sample_spec by blast
  then show "fst (select_sample self scat w) = Inr (map (spec_quality self scat) [0..<nrows scat])"
    by simp
next
  assume "flags_column self = None \<and> clstar_column self = None \<and> fwhm_column self = None \<and>
        sn_column self = None"
  then show "fst (select_sample self [(mag_column self, [Some (185 / 10)]), (''FLAGS'', [Some 1])] w) =
        Inr [True]"
    by (simp add: select_sample_def mag_sample_def flags_stage_def clstar_stage_def fwhm_stage_def
        sn_stage_def io_bind_def io_lift_def io_return_def logmsg_def bind_def getcol_def
        mask_and_def cell_gt_def cell_lt_def)
qed

lemma ex_scat_wf: "wf_table ex_scat"
  by (simp add: wf_table_def ex_scat_def nrows_def)

lemma ex_scat_nrows: "nrows ex_scat = 5"
  by (simp add: ex_scat_def nrows_def)

lemma upt_5: "[0..<5] = [0, 1, 2, 3, 4]"
  by (simp add: upt_rec)

theorem C3_quality_selection_witness:
  "wf_table ex_scat \<and> columns_present (ex_self\<lparr>flags_column := Some ''FLAGS''\<rparr>) ex_scat \<and>
   fst (select_sample (ex_self\<lparr>flags_column := Some ''FLAGS''\<rparr>) ex_scat ex_world) = Inr [False, True, True, True, False] \<and>
   flags_column ex_self = None \<and> clstar_column ex_self = None \<and> fwhm_column ex_self = None \<and>
   sn_column ex_self = None \<and>
   fst (select_sample ex_self [(mag_column ex_self, [Some (185 / 10)]), (''FLAGS'', [Some 1])] ex_world) =
     Inr [True]"
proof -
  have a: "wf_table ex_scat \<and> columns_present (ex_self\<lparr>flags_column := Some ''FLAGS''\<rparr>) ex_scat"
  proof
    show "wf_table ex_scat" by (rule ex_scat_wf)
    show "columns_present (ex_self\<lparr>flags_column := Some ''FLAGS''\<rparr>) ex_scat"
      by (simp add: columns_present_def has_col_def ex_self_def ex_scat_def)
  qed
  have b: "flags_column ex_self = None \<and> clstar_column ex_self = None \<and> fwhm_column ex_self = None \<and>
       sn_column ex_self = None"
    by (simp add: ex_self_def)
  have c: "map (spec_quality (ex_self\<lparr>flags_column := Some ''FLAGS''\<rparr>) ex_scat) [0..<nrows ex_scat] =
       [False, True, True, True, False]"
    unfolding ex_scat_nrows upt_5
    by (simp add: spec_quality_def spec_cond_def ex_self_def ex_scat_def)
  from C3_quality_selection [of ex_scat "ex_self\<lparr>flags_column := Some ''FLAGS''\<rparr>" ex_world] a c
  have d: "fst (select_sample (ex_self\<lparr>flags_column := Some ''FLAGS''\<rparr>) ex_scat ex_world) =
       Inr [False, True, True, True, False]" by simp
  from C3_quality_selection [of _ ex_self ex_world] b
  have e: "fst (select_sample ex_self [(mag_column ex_self, [Some (185 / 10)]), (''FLAGS'', [Some 1])]
       ex_world) = Inr [True]" by blast
  from a b d e show ?thesis by blast
qed

subsection \<open>Optional columns that are not configured, and columns that the table lacks\<close>

lemma configured_column_absent:
  assumes "map_of scat c = None"
  shows "flags_column self = Some c \<Longrightarrow> flags_stage self scat s w = (Inl (KeyError c), w)"
    and "clstar_column self = Some c \<Longrightarrow> clstar_stage self scat s w =
       (Inl (KeyError c), emit (Log WARNING ''Column for CLASS_STAR not found. Ignoring'') w)"
    and "fwhm_column self = Some c \<Longrightarrow> fwhm_stage self scat s w = (Inl (KeyError c), w)"
    and "sn_column self = Some c \<Longrightarrow> sn_stage self scat s w = (Inl (KeyError c), w)"
  using assms
  by (simp_all add: flags_stage_def clstar_stage_def fwhm_stage_def sn_stage_def io_lift_def
      getcol_def bind_def)

text \<open>
  Claim C8. For each of the four optional columns: when it is not configured, its stage
  raises nothing, logs one warning and hands the selection it received, unchanged, to
  whatever follows it in the pipeline. When a flags, FWHM or signal-to-noise column is
  configured and the survey table has no column of that name, the stage raises
  \<open>KeyError\<close>, logs nothing, and what follows it is not run.
\<close>

theorem C8_unconfigured_column_is_skipped:
  "(flags_column self = None \<longrightarrow>
      io_bind (flags_stage self scat s) k w =
        k s (emit (Log WARNING ''FLAGS column not available. Skipping using flags to object selection'') w))
   \<and> (clstar_column self = None \<longrightarrow>
      io_bind (clstar_stage self scat s) k w =
        k s (emit (Log WARNING
          ''CLASS_STAR column not available. Skipping using CLASS_STAR to object selection'') w))
   \<and> (fwhm_column self = None \<longrightarrow>
      io_bind (fwhm_stage self scat s) k w =
        k s (emit (Log WARNING ''FWHM column not available. Skipping using FWHM to object selection'') w))
   \<and> (sn_column self = None \<longrightarrow>
      io_bind (sn_stage self scat s) k w =
        k s (emit (Log WARNING ''SN column not available. Skipping using SN to object selection'') w))
   \<and> (flags_column self = Some c \<and> map_of scat c = None \<longrightarrow>
      io_bind (flags_stage self scat s) k w = (Inl (KeyError c), w))
   \<and> (fwhm_column self = Some c \<and> map_of scat c = None \<longrightarrow>
      io_bind (fwhm_stage self scat s) k w = (Inl (KeyError c), w))
   \<and> (sn_column self = Some c \<and> map_of scat c = None \<longrightarrow>
      io_bind (sn_stage self scat s) k w = (Inl (KeyError c), w))"
proof (intro conjI impI)
  assume "flags_column self = None"
  then show "io_bind (flags_stage self scat s) k w =
        k s (emit (Log WARNING ''FLAGS column not available. Skipping using flags to object selection'') w)"
    by (simp add: flags_stage_def io_bind_def logmsg_def io_return_def)
next
  assume "clstar_column self = None"
  then show "io_bind (clstar_stage self scat s) k w =
        k s (emit (Log WARNING
          ''CLASS_STAR column not available. Skipping using CLASS_STAR to object selection'') w)"
    by (simp add: clstar_stage_def io_bind_def logmsg_def io_return_def)
next
  assume "fwhm_column self = None"
  then show "io_bind (fwhm_stage self scat s) k w =
        k s (emit (Log WARNING ''FWHM column not available. Skipping using FWHM to object selection'') w)"
    by (simp add: fwhm_stage_def io_bind_def logmsg_def io_return_def)
next
  assume "sn_column self = None"
  then show "io_bind (sn_stage self scat s) k w =
        k s (emit (Log WARNING ''SN column not available. Skipping using SN to object selection'') w)"
    by (simp add: sn_stage_def io_bind_def logmsg_def io_return_def)
next
  assume "flags_column self = Some c \<and> map_of scat c = None"
  then show "io_bind (flags_stage self scat s) k w = (Inl (KeyError c), w)"
    by (simp add: flags_stage_def io_bind_def io_lift_def getcol_def bind_def)
next
  assume "fwhm_column self = Some c \<and> map_of scat c = None"
  then show "io_bind (fwhm_stage self scat s) k w = (Inl (KeyError c), w)"
    by (simp add: fwhm_stage_def io_bind_def io_lift_def getcol_def bind_def)
next
  assume "sn_column self = Some c \<and> map_of scat c = None"
  then show "io_bind (sn_stage self scat s) k w = (Inl (KeyError c), w)"
    by (simp add: sn_stage_def io_bind_def io_lift_def getcol_def bind_def)
qed

theorem C8_unconfigured_column_is_skipped_witness:
  "flags_column ex_self = None \<and> clstar_column ex_self = None \<and> fwhm_column ex_self = None \<and>
   sn_column ex_self = None \<and>
   io_bind (flags_stage ex_self ex_scat [True, True, True, True, False])
       (clstar_stage ex_self ex_scat) ex_world =
     clstar_stage ex_self ex_scat [True, True, True, True, False]
       (emit (Log WARNING ''FLAGS column not available. Skipping using flags to object selection'')
          ex_world) \<and>
   io_bind (clstar_stage ex_self ex_scat [True, True, True, True, False])
       (fwhm_stage ex_self ex_scat) ex_world =
     fwhm_stage ex_self ex_scat [True, True, True, True, False]
       (emit (Log WARNING
          ''CLASS_STAR column not available. Skipping using CLASS_STAR to object selection'') ex_world) \<and>
   io_bind (fwhm_stage ex_self ex_scat [True, True, True, True, False])
       (sn_stage ex_self ex_scat) ex_world =
     sn_stage ex_self ex_scat [True, True, True, True, False]
       (emit (Log WARNING ''FWHM column not available. Skipping using FWHM to object selection'')
          ex_world) \<and>
   io_bind (sn_stage ex_self ex_scat [True, True, True, True, False]) io_return ex_world =
     io_return [True, True, True, True, False]
       (emit (Log WARNING ''SN column not available. Skipping using SN to object selection'') ex_world) \<and>
   flags_column (ex_self\<lparr>flags_column := Some ''FLAGS_r''\<rparr>) = Some ''FLAGS_r'' \<and>
   fwhm_column (ex_self\<lparr>fwhm_column := Some ''FWHM''\<rparr>) = Some ''FWHM'' \<and>
   sn_column (ex_self\<lparr>sn_column := Some ''SN''\<rparr>) = Some ''SN'' \<and>
   map_of ex_scat ''FLAGS_r'' = None \<and> map_of ex_scat ''FWHM'' = None \<and> map_of ex_scat ''SN'' = None \<and>
   io_bind (flags_stage (ex_self\<lparr>flags_column := Some ''FLAGS_r''\<rparr>) ex_scat
              [True, True, True, True, False])
       (clstar_stage (ex_self\<lparr>flags_column := Some ''FLAGS_r''\<rparr>) ex_scat) ex_world =
     (Inl (KeyError ''FLAGS_r''), ex_world) \<and>
   io_bind (fwhm_stage (ex_self\<lparr>fwhm_column := Some ''FWHM''\<rparr>) ex_scat
              [True, True, True, True, False])
       (sn_stage (ex_self\<lparr>fwhm_column := Some ''FWHM''\<rparr>) ex_scat) ex_world =
     (Inl (KeyError ''FWHM''), ex_world) \<and>
   io_bind (sn_stage (ex_self\<lparr>sn_column := Some ''SN''\<rparr>) ex_scat
              [True, True, True, True, False]) io_return ex_world =
     (Inl (KeyError ''SN''), ex_world)"
proof -
  have b: "flags_column ex_self = None" "clstar_column ex_self = None" "fwhm_column ex_self = None"
       "sn_column ex_self = None"
    by (simp_all add: ex_self_def)
  have c: "flags_column (ex_self\<lparr>flags_column := Some ''FLAGS_r''\<rparr>) = Some ''FLAGS_r''"
     "fwhm_column (ex_self\<lparr>fwhm_column := Some ''FWHM''\<rparr>) = Some ''FWHM''"
     "sn_column (ex_self\<lparr>sn_column := Some ''SN''\<rparr>) = Some ''SN''"
     "map_of ex_scat ''FLAGS_r'' = None" "map_of ex_scat ''FWHM'' = None" "map_of ex_scat ''SN'' = None"
    by (simp_all add: ex_scat_def)
  note t1 = C8_unconfigured_column_is_skipped [of ex_self ex_scat "[True, True, True, True, False]"
      "clstar_stage ex_self ex_scat" ex_world, THEN conjunct1, rule_format, OF b(1)]
  note t2 = C8_unconfigured_column_is_skipped [of ex_self ex_scat "[True, True, True, True, False]"
      "fwhm_stage ex_self ex_scat" ex_world, THEN conjunct2, THEN conjunct1, rule_format, OF b(2)]
  note t3 = C8_unconfigured_column_is_skipped [of ex_self ex_scat "[True, True, True, True, False]"
      "sn_stage ex_self ex_scat" ex_world, THEN conjunct2, THEN conjunct2, THEN conjunct1,
      rule_format, OF b(3)]
  note t4 = C8_unconfigured_column_is_skipped [of ex_self ex_scat "[True, True, True, True, False]"
      io_return ex_world, THEN conjunct2, THEN conjunct2, THEN conjunct2, THEN conjunct1,
      rule_format, OF b(4)]
  note t5 = C8_unconfigured_column_is_skipped [of "ex_self\<lparr>flags_column := Some ''FLAGS_r''\<rparr>"
      ex_scat "[True, True, True, True, False]"
      "clstar_stage (ex_self\<lparr>flags_column := Some ''FLAGS_r''\<rparr>) ex_scat" ex_world "''FLAGS_r''",
      THEN conjunct2, THEN conjunct2, THEN conjunct2, THEN conjunct2, THEN conjunct1, rule_format,
      OF conjI [OF c(1) c(4)]]
  note t6 = C8_unconfigured_column_is_skipped [of "ex_self\<lparr>fwhm_column := Some ''FWHM''\<rparr>"
      ex_scat "[True, True, True, True, False]"
      "sn_stage (ex_self\<lparr>fwhm_column := Some ''FWHM''\<rparr>) ex_scat" ex_world "''FWHM''",
      THEN conjunct2, THEN conjunct2, THEN conjunct2, THEN conjunct2, THEN conjunct2,
      THEN conjunct1, rule_format, OF conjI [OF c(2) c(5)]]
  note t7 = C8_unconfigured_column_is_skipped [of "ex_self\<lparr>sn_column := Some ''SN''\<rparr>"
      ex_scat "[True, True, True, True, False]" io_return ex_world "''SN''",
      THEN conjunct2, THEN conjunct2, THEN conjunct2, THEN conjunct2, THEN conjunct2,
      THEN conjunct2, rule_format, OF conjI [OF c(3) c(6)]]
  from b c t1 t2 t3 t4 t5 t6 t7 show ?thesis by (intro conjI)
qed

text \<open>
  A column that is missing from the table. On the example tile, with the flags column
  configured under a name that the survey table does not have, the work on the tile
  ends in \<open>KeyError\<close> after the two catalogues were read: no warning is logged and no
  result is written.
\<close>

theorem C8_absent_column_is_fatal:
  "map_of ex_scat ''FLAGS_r'' = None \<and>
   process_new_tile ex_srv (ex_self\<lparr>flags_column := Some ''FLAGS_r''\<rparr>) ex_fp [''T1''] ''w'' ''355'' []
      ''.fits'' (results_dir_of ''w'') ''T1'' ex_world =
     (Inl (KeyError ''FLAGS_r''),
      ex_world\<lparr>trace := [Log INFO ''Reading gaia cat from database'',
         ReadFile ''w/gaia_355/T1.csv'', ReadFile ''w/T1.fits'']\<rparr>)"
proof
  show "map_of ex_scat ''FLAGS_r'' = None" by (simp add: ex_scat_def)
  have lg: "load_gaia ex_srv (ex_self\<lparr>flags_column := Some ''FLAGS_r''\<rparr>) ''w'' ''355''
      (Some 1, Some 20) ''T1'' ex_world =
     (Inr ex_gaia, ex_world\<lparr>trace := [Log INFO ''Reading gaia cat from database'',
        ReadFile ''w/gaia_355/T1.csv'']\<rparr>)"
    by (simp add: load_gaia_def ex_gaia_path isfile_def ex_world_def io_bind_def logmsg_def emit_def
        ascii_read_csv_def)
  have ls: "load_survey (ex_self\<lparr>flags_column := Some ''FLAGS_r''\<rparr>) ''w'' [] ''.fits'' ''T1''
      (ex_world\<lparr>trace := [Log INFO ''Reading gaia cat from database'',
        ReadFile ''w/gaia_355/T1.csv'']\<rparr>) =
     (Inr ex_scat, ex_world\<lparr>trace := [Log INFO ''Reading gaia cat from database'',
        ReadFile ''w/gaia_355/T1.csv'', ReadFile ''w/T1.fits'']\<rparr>)"
    by (simp add: load_survey_def ex_survey_path ex_self_def except_type_error_def
        fits_open_data_def emit_def ex_world_survey)
  have ss: "\<And>w. select_sample (ex_self\<lparr>flags_column := Some ''FLAGS_r''\<rparr>) ex_scat w =
      (Inl (KeyError ''FLAGS_r''), w)"
    by (simp add: select_sample_def mag_sample_def flags_stage_def io_bind_def io_lift_def bind_def
        getcol_def ex_self_def ex_scat_def mask_and_def cell_gt_def cell_lt_def)
  show "process_new_tile ex_srv (ex_self\<lparr>flags_column := Some ''FLAGS_r''\<rparr>) ex_fp [''T1''] ''w''
      ''355'' [] ''.fits'' (results_dir_of ''w'') ''T1'' ex_world =
     (Inl (KeyError ''FLAGS_r''),
      ex_world\<lparr>trace := [Log INFO ''Reading gaia cat from database'',
         ReadFile ''w/gaia_355/T1.csv'', ReadFile ''w/T1.fits'']\<rparr>)"
    unfolding process_new_tile_def
    by (simp add: io_bind_def io_lift_def ex_centre lg ls ex_splus_coords ex_gaia_coords ex_match ss)
qed

subsection \<open>The separation threshold\<close>

text \<open>
  Claim C7. Whatever the quality selection is, a survey row whose separation from its
  nearest reference row is 5 arcsec or more (or is not a valid number) is not among the
  rows kept for the tile; and when the work on a tile ends normally, every row of the
  written table comes from a survey row whose separation, as the matcher gave it, is
  below 5 arcsec.
\<close>

theorem C7_far_pairs_are_excluded:
  "(mask_and (separation_mask d2d) sample = Inr keep \<and> j < length d2d \<and>
      (\<forall>v. d2d ! j = Some v \<longrightarrow> 5 \<le> v) \<longrightarrow> \<not> keep ! j)
   \<and> (process_new_tile srv self fp field_names wd dr pre suf results_dir tile w = (Inr u, w') \<longrightarrow>
       (\<exists>c gaia scat w1 w2 c1 c2 idx dist sra sde gra gde rows radiff dediff pm.
          load_gaia srv self wd dr c tile w = (Inr gaia, w1) \<and>
          load_survey self wd pre suf tile w1 = (Inr scat, w2) \<and>
          sky_coords scat (racolumn self) (decolumn self) = Inr c1 \<and>
          sky_coords gaia ''RAJ2000'' ''DEJ2000'' = Inr c2 \<and>
          match_to_catalog_3d srv c1 c2 = Inr (idx, dist) \<and>
          getcol scat (racolumn self) = Inr sra \<and> getcol scat (decolumn self) = Inr sde \<and>
          getcol gaia ''RAJ2000'' = Inr gra \<and> getcol gaia ''DEJ2000'' = Inr gde \<and>
          list_all (\<lambda>j. j < length dist \<and> (\<exists>v. dist ! j = Some v \<and> v < 5)) rows \<and>
          files w' (path_to_results results_dir tile) = Some (Csv
            [(''RA'', map (\<lambda>j. sra ! j) rows),
             (''DEC'', map (\<lambda>j. sde ! j) rows),
             (''RAJ2000'', map (\<lambda>j. gra ! (idx ! j)) rows),
             (''DEJ2000'', map (\<lambda>j. gde ! (idx ! j)) rows),
             (''radiff'', radiff), (''dediff'', dediff), (''abspm'', pm)])))"
proof (intro conjI impI)
  assume a: "mask_and (separation_mask d2d) sample = Inr keep \<and> j < length d2d \<and>
      (\<forall>v. d2d ! j = Some v \<longrightarrow> 5 \<le> v)"
  then have "j < length (separation_mask d2d)" by (simp add: separation_mask_length)
  with a have "keep ! j = (separation_mask d2d ! j \<and> sample ! j)" using mask_and_nth by blast
  moreover from a have "\<not> separation_mask d2d ! j" by (auto simp: separation_mask_nth)
  ultimately show "\<not> keep ! j" by simp
next
  assume "process_new_tile srv self fp field_names wd dr pre suf results_dir tile w = (Inr u, w')"
  from written_rows [OF this] obtain c gaia scat w1 w2 c1 c2 idx dist sample sra sde gra gde
      pmra pmde lmt where
    lg: "load_gaia srv self wd dr c tile w = (Inr gaia, w1)" and
    ls: "load_survey self wd pre suf tile w1 = (Inr scat, w2)" and
    s1: "sky_coords scat (racolumn self) (decolumn self) = Inr c1" and
    s2: "sky_coords gaia ''RAJ2000'' ''DEJ2000'' = Inr c2" and
    mt: "match_to_catalog_3d srv c1 c2 = Inr (idx, dist)" and
    cols: "getcol scat (racolumn self) = Inr sra" "getcol scat (decolumn self) = Inr sde"
      "getcol gaia ''RAJ2000'' = Inr gra" "getcol gaia ''DEJ2000'' = Inr gde" and
    len: "length dist = length sample" and
    fl: "files w' (path_to_results results_dir tile) = Some (Csv
       (let rows = spec_below (\<lambda>j. spec_abspm (pmra ! (idx ! j)) (pmde ! (idx ! j))) lmt
                     (spec_matched dist sample)
        in [(''RA'', map (\<lambda>j. sra ! j) rows),
            (''DEC'', map (\<lambda>j. sde ! j) rows),
            (''RAJ2000'', map (\<lambda>j. gra ! (idx ! j)) rows),
            (''DEJ2000'', map (\<lambda>j. gde ! (idx ! j)) rows),
            (''radiff'', map (\<lambda>j. spec_radiff (np_cos_deg srv) (sra ! j) (gra ! (idx ! j))
                                    (gde ! (idx ! j))) rows),
            (''dediff'', map (\<lambda>j. spec_dediff (sde ! j) (gde ! (idx ! j))) rows),
            (''abspm'', map (\<lambda>j. spec_abspm (pmra ! (idx ! j)) (pmde ! (idx ! j))) rows)]))"
    by blast
  define rows where "rows = spec_below (\<lambda>j. spec_abspm (pmra ! (idx ! j)) (pmde ! (idx ! j))) lmt
                     (spec_matched dist sample)"
  have sub: "set rows \<subseteq> set (spec_matched dist sample)"
    by (auto simp: rows_def spec_below_def)
  have "list_all (\<lambda>j. j < length dist \<and> (\<exists>v. dist ! j = Some v \<and> v < 5)) rows"
    using sub len by (auto simp: list_all_iff spec_matched_def split: option.splits)
  moreover note res = fl [folded rows_def, unfolded Let_def]
  ultimately have "list_all (\<lambda>j. j < length dist \<and> (\<exists>v. dist ! j = Some v \<and> v < 5)) rows \<and>
          files w' (path_to_results results_dir tile) = Some (Csv
            [(''RA'', map (\<lambda>j. sra ! j) rows),
             (''DEC'', map (\<lambda>j. sde ! j) rows),
             (''RAJ2000'', map (\<lambda>j. gra ! (idx ! j)) rows),
             (''DEJ2000'', map (\<lambda>j. gde ! (idx ! j)) rows),
             (''radiff'', map (\<lambda>j. spec_radiff (np_cos_deg srv) (sra ! j) (gra ! (idx ! j))
                                    (gde ! (idx ! j))) rows),
             (''dediff'', map (\<lambda>j. spec_dediff (sde ! j) (gde ! (idx ! j))) rows),
             (''abspm'', map (\<lambda>j. spec_abspm (pmra ! (idx ! j)) (pmde ! (idx ! j))) rows)])"
    by simp
  with lg ls s1 s2 mt cols
  show "\<exists>c gaia scat w1 w2 c1 c2 idx dist sra sde gra gde rows radiff dediff pm.
          load_gaia srv self wd dr c tile w = (Inr gaia, w1) \<and>
          load_survey self wd pre suf tile w1 = (Inr scat, w2) \<and>
          sky_coords scat (racolumn self) (decolumn self) = Inr c1 \<and>
          sky_coords gaia ''RAJ2000'' ''DEJ2000'' = Inr c2 \<and>
          match_to_catalog_3d srv c1 c2 = Inr (idx, dist) \<and>
          getcol scat (racolumn self) = Inr sra \<and> getcol scat (decolumn self) = Inr sde \<and>
          getcol gaia ''RAJ2000'' = Inr gra \<and> getcol gaia ''DEJ2000'' = Inr gde \<and>
          list_all (\<lambda>j. j < length dist \<and> (\<exists>v. dist ! j = Some v \<and> v < 5)) rows \<and>
          files w' (path_to_results results_dir tile) = Some (Csv
            [(''RA'', map (\<lambda>j. sra ! j) rows),
             (''DEC'', map (\<lambda>j. sde ! j) rows),
             (''RAJ2000'', map (\<lambda>j. gra ! (idx ! j)) rows),
             (''DEJ2000'', map (\<lambda>j. gde ! (idx ! j)) rows),
             (''radiff'', radiff), (''dediff'', dediff), (''abspm'', pm)])"
    by blast
qed

theorem C7_far_pairs_are_excluded_witness:
  "mask_and (separation_mask [Some (383 / 100), Some 5, Some 7, None]) [True, True, True, True] =
     Inr [True, False, False, False] \<and>
   \<not> [True, False, False, False] ! 1 \<and> \<not> [True, False, False, False] ! 2 \<and>
   process_new_tile ex_srv ex_self ex_fp [''T1''] ''w'' ''355'' [] ''.fits'' (results_dir_of ''w'') ''T1''
      ex_world = (Inr (), ex_world_after) \<and>
   (\<exists>c gaia scat w1 w2 c1 c2 idx dist sra sde gra gde rows radiff dediff pm.
          load_gaia ex_srv ex_self ''w'' ''355'' c ''T1'' ex_world = (Inr gaia, w1) \<and>
          load_survey ex_self ''w'' [] ''.fits'' ''T1'' w1 = (Inr scat, w2) \<and>
          sky_coords scat (racolumn ex_self) (decolumn ex_self) = Inr c1 \<and>
          sky_coords gaia ''RAJ2000'' ''DEJ2000'' = Inr c2 \<and>
          match_to_catalog_3d ex_srv c1 c2 = Inr (idx, dist) \<and>
          getcol scat (racolumn ex_self) = Inr sra \<and> getcol scat (decolumn ex_self) = Inr sde \<and>
          getcol gaia ''RAJ2000'' = Inr gra \<and> getcol gaia ''DEJ2000'' = Inr gde \<and>
          list_all (\<lambda>j. j < length dist \<and> (\<exists>v. dist ! j = Some v \<and> v < 5)) rows \<and>
          files ex_world_after (path_to_results (results_dir_of ''w'') ''T1'') = Some (Csv
            [(''RA'', map (\<lambda>j. sra ! j) rows),
             (''DEC'', map (\<lambda>j. sde ! j) rows),
             (''RAJ2000'', map (\<lambda>j. gra ! (idx ! j)) rows),
             (''DEJ2000'', map (\<lambda>j. gde ! (idx ! j)) rows),
             (''radiff'', radiff), (''dediff'', dediff), (''abspm'', pm)]))"
proof -
  have m: "mask_and (separation_mask [Some (383 / 100), Some 5, Some 7, None]) [True, True, True, True] =
     Inr [True, False, False, False]"
    by (simp add: mask_and_def separation_mask_def cell_lt_def)
  note th = C7_far_pairs_are_excluded [of "[Some (383 / 100), Some 5, Some 7, None]"
      "[True, True, True, True]" "[True, False, False, False]" _ ex_srv ex_self ex_fp "[''T1'']"
      "''w''" "''355''" "[]" "''.fits''" "results_dir_of ''w''" "''T1''" ex_world "()" ex_world_after]
  have k1: "\<not> [True, False, False, False] ! 1" using th [of 1] m by simp
  have k2: "\<not> [True, False, False, False] ! 2" using th [of 2] m by simp
  from th [of 0] ex_run m k1 k2 show ?thesis by blast
qed

end
